theory Spec2Isabelle
  imports Complex_Main "HOL-Library.Word"
begin

section \<open>Numbers\<close>

text \<open>
  The analyzer of \<^verbatim>\<open>mcp_health/core/data_analysis.py\<close> computes with Python numbers and
  with the numpy scalars that pandas returns. A floating-point value is a finite number,
  an infinity or \<^verbatim>\<open>nan\<close>. \<open>Fin r\<close> is the finite value \<open>r\<close>: arithmetic on finite values
  is exact, so rounding, signed zeros and the overflow of a finite sum, difference or
  product to an infinity are outside the model, and so are Python integers beyond the
  range of the doubles. The infinities and \<^verbatim>\<open>nan\<close> follow IEEE 754.
\<close>

datatype fval = Fin real | PInf | NInf | NaN

fun fneg :: "fval \<Rightarrow> fval" where
  "fneg (Fin a) = Fin (- a)"
| "fneg PInf = NInf"
| "fneg NInf = PInf"
| "fneg NaN = NaN"

fun fadd :: "fval \<Rightarrow> fval \<Rightarrow> fval" where
  "fadd (Fin a) (Fin b) = Fin (a + b)"
| "fadd NaN y = NaN"
| "fadd x NaN = NaN"
| "fadd PInf NInf = NaN"
| "fadd NInf PInf = NaN"
| "fadd PInf y = PInf"
| "fadd x PInf = PInf"
| "fadd NInf y = NInf"
| "fadd x NInf = NInf"

definition fsub :: "fval \<Rightarrow> fval \<Rightarrow> fval" where
  "fsub x y = fadd x (fneg y)"

fun fmul :: "fval \<Rightarrow> fval \<Rightarrow> fval" where
  "fmul (Fin a) (Fin b) = Fin (a * b)"
| "fmul NaN y = NaN"
| "fmul x NaN = NaN"
| "fmul (Fin a) y = (if a = 0 then NaN else if (a > 0) = (y = PInf) then PInf else NInf)"
| "fmul x (Fin b) = (if b = 0 then NaN else if (b > 0) = (x = PInf) then PInf else NInf)"
| "fmul x y = (if x = y then PInf else NInf)"

text \<open>
  IEEE division, which never raises: a finite non-zero value over zero is an infinity,
  zero over zero is \<^verbatim>\<open>nan\<close>.
\<close>

fun fdiv :: "fval \<Rightarrow> fval \<Rightarrow> fval" where
  "fdiv NaN y = NaN"
| "fdiv x NaN = NaN"
| "fdiv (Fin a) (Fin b) =
     (if b \<noteq> 0 then Fin (a / b) else if a = 0 then NaN else if a > 0 then PInf else NInf)"
| "fdiv (Fin a) y = Fin 0"
| "fdiv x (Fin b) = (if (b \<ge> 0) = (x = PInf) then PInf else NInf)"
| "fdiv x y = NaN"

text \<open>\<open>fless x y\<close> is \<^verbatim>\<open>x < y\<close>: every comparison with \<^verbatim>\<open>nan\<close> is false.\<close>

fun fless :: "fval \<Rightarrow> fval \<Rightarrow> bool" where
  "fless NaN y = False"
| "fless x NaN = False"
| "fless (Fin a) (Fin b) = (a < b)"
| "fless x PInf = (x \<noteq> PInf)"
| "fless PInf y = False"
| "fless NInf y = (y \<noteq> NInf)"
| "fless x NInf = False"

definition fle :: "fval \<Rightarrow> fval \<Rightarrow> bool" where
  "fle x y = (fless x y \<or> (x = y \<and> x \<noteq> NaN))"

fun finite_value :: "fval \<Rightarrow> bool" where
  "finite_value (Fin a) = True"
| "finite_value x = False"

text \<open>
  A number is a Python number (\<^verbatim>\<open>int\<close> or \<^verbatim>\<open>float\<close>) or a numpy scalar
  (\<^verbatim>\<open>numpy.float64\<close>, or \<^verbatim>\<open>numpy.int64\<close> read as its value). The two kinds differ in
  division: \<^verbatim>\<open>/\<close> on two Python numbers raises \<open>ZeroDivisionError\<close> on a zero divisor,
  and when either operand is a numpy scalar the operation is numpy's, which returns an
  infinity or \<^verbatim>\<open>nan\<close> (with a warning) and raises nothing. An operation with a numpy
  operand returns a numpy scalar. Arithmetic on numpy integers is exact here: their
  wrap-around is modelled where a column is summed.
\<close>

datatype number = Py fval | Np fval

fun fval_of :: "number \<Rightarrow> fval" where
  "fval_of (Py v) = v"
| "fval_of (Np v) = v"

fun is_np :: "number \<Rightarrow> bool" where
  "is_np (Py v) = False"
| "is_np (Np v) = True"

abbreviation py :: "real \<Rightarrow> number" where
  "py r \<equiv> Py (Fin r)"

definition coerce :: "number \<Rightarrow> number \<Rightarrow> fval \<Rightarrow> number" where
  "coerce x y v = (if is_np x \<or> is_np y then Np v else Py v)"

definition nadd :: "number \<Rightarrow> number \<Rightarrow> number" where
  "nadd x y = coerce x y (fadd (fval_of x) (fval_of y))"

definition nsub :: "number \<Rightarrow> number \<Rightarrow> number" where
  "nsub x y = coerce x y (fsub (fval_of x) (fval_of y))"

definition nmul :: "number \<Rightarrow> number \<Rightarrow> number" where
  "nmul x y = coerce x y (fmul (fval_of x) (fval_of y))"

text \<open>\<open>ngt x y\<close> is \<^verbatim>\<open>x > y\<close> and \<open>nge x y\<close> is \<^verbatim>\<open>x >= y\<close>.\<close>

definition ngt :: "number \<Rightarrow> number \<Rightarrow> bool" where
  "ngt x y = fless (fval_of y) (fval_of x)"

definition nge :: "number \<Rightarrow> number \<Rightarrow> bool" where
  "nge x y = fle (fval_of y) (fval_of x)"

section \<open>Dictionaries and exceptions\<close>

text \<open>A dictionary from metric names to numbers is a partial map from strings.\<close>

type_synonym pydict = "string \<rightharpoonup> number"

text \<open>
  The exceptions the analyzer can raise are Python's own: \<open>KeyError\<close> from \<^verbatim>\<open>d[k]\<close> on
  an absent key, \<open>IndexError\<close> from a position out of range, \<open>ZeroDivisionError\<close> from
  \<^verbatim>\<open>/\<close> on Python numbers and \<open>OverflowError\<close> from \<^verbatim>\<open>**\<close> on a float. The source
  defines no exception class. \<open>DataError\<close> and \<open>ConfigurationError\<close> are the error kinds
  of the specification; they are part of the type so that statements can speak about
  them, and no function below produces them.
\<close>

datatype error =
  KeyError string | IndexError | ZeroDivisionError | OverflowError | DataError
  | ConfigurationError

definition getitem :: "pydict \<Rightarrow> string \<Rightarrow> error + number" where
  "getitem d k = (case d k of None \<Rightarrow> Inl (KeyError k) | Some v \<Rightarrow> Inr v)"

text \<open>Sequencing: the first exception ends the computation.\<close>

definition ebind :: "error + 'a \<Rightarrow> ('a \<Rightarrow> error + 'b) \<Rightarrow> error + 'b" where
  "ebind m f = (case m of Inl e \<Rightarrow> Inl e | Inr v \<Rightarrow> f v)"

text \<open>True division \<^verbatim>\<open>x / y\<close>.\<close>

definition truediv :: "number \<Rightarrow> number \<Rightarrow> error + number" where
  "truediv x y =
     (if \<not> is_np x \<and> \<not> is_np y \<and> fval_of y = Fin 0 then Inl ZeroDivisionError
      else Inr (coerce x y (fdiv (fval_of x) (fval_of y))))"

text \<open>
  \<^verbatim>\<open>b ** n\<close> for a positive float \<open>b\<close> and an \<^verbatim>\<open>int\<close> \<open>n\<close>: Python raises \<open>OverflowError\<close>
  when the result exceeds the largest finite double, \<open>(2\<^sup>5\<^sup>3 - 1) \<sqdot> 2\<^sup>9\<^sup>7\<^sup>1\<close>.
\<close>

definition float_max :: real where
  "float_max = (2 ^ 53 - 1) * 2 ^ 971"

definition py_float_pow :: "real \<Rightarrow> int \<Rightarrow> error + number" where
  "py_float_pow b n =
     (let r = (if n \<ge> 0 then b ^ nat n else 1 / b ^ nat (- n)) in
      if r > float_max then Inl OverflowError else Inr (py r))"

text \<open>The builtin \<^verbatim>\<open>sum\<close>: a left fold of \<^verbatim>\<open>+\<close> from the \<^verbatim>\<open>int\<close> \<open>0\<close>.\<close>

definition py_sum :: "number list \<Rightarrow> number" where
  "py_sum xs = foldl nadd (py 0) xs"

section \<open>A store of dictionaries\<close>

text \<open>
  Dictionaries are mutable objects passed by reference. The store is the list of the
  dictionaries allocated so far and a reference is an index into it, so that
  \<^verbatim>\<open>d.copy()\<close> allocates and \<^verbatim>\<open>d[k] = v\<close> updates the object that \<open>d\<close> refers to.
\<close>

type_synonym ref = nat
type_synonym heap = "pydict list"

definition dict_copy :: "heap \<Rightarrow> ref \<Rightarrow> heap \<times> ref" where
  "dict_copy h r = (h @ [h ! r], length h)"

definition dict_getitem :: "heap \<Rightarrow> ref \<Rightarrow> string \<Rightarrow> error + number" where
  "dict_getitem h r k = getitem (h ! r) k"

definition dict_setitem :: "heap \<Rightarrow> ref \<Rightarrow> string \<Rightarrow> number \<Rightarrow> heap" where
  "dict_setitem h r k v = h[r := (h ! r)(k \<mapsto> v)]"

section \<open>Scenario transformer: \<^verbatim>\<open>calculate_ai_impact_metrics\<close>\<close>

text \<open>
  One statement \<^verbatim>\<open>ai_metrics[k] = baseline[k] * (1 - self.ai_improvements[f])\<close>
  (or \<^verbatim>\<open>1 + ...\<close>, the parameter \<open>factor\<close>): the right-hand side is evaluated first
  (the baseline key, then the factor key), then the item of \<open>ai_metrics\<close> is stored. On
  an exception the store is left as it is.
\<close>

definition improve_item ::
  "pydict \<Rightarrow> ref \<Rightarrow> ref \<Rightarrow> string \<Rightarrow> (number \<Rightarrow> number) \<Rightarrow> string \<Rightarrow> heap
    \<Rightarrow> heap \<times> (error + unit)" where
  "improve_item ai_improvements baseline ai_metrics k factor f h =
     (case dict_getitem h baseline k of
        Inl e \<Rightarrow> (h, Inl e)
      | Inr b \<Rightarrow>
         (case getitem ai_improvements f of
            Inl e \<Rightarrow> (h, Inl e)
          | Inr g \<Rightarrow> (dict_setitem h ai_metrics k (nmul b (factor g)), Inr ())))"

text \<open>Sequencing of statements on the store.\<close>

definition sbind ::
  "(heap \<Rightarrow> heap \<times> (error + 'a)) \<Rightarrow> ('a \<Rightarrow> heap \<Rightarrow> heap \<times> (error + 'b)) \<Rightarrow> heap \<Rightarrow> heap \<times> (error + 'b)" where
  "sbind m f h = (case m h of (h', Inl e) \<Rightarrow> (h', Inl e) | (h', Inr v) \<Rightarrow> f v h')"

text \<open>
  The method on the store: \<open>baseline\<close> is the reference the caller passes, the result
  is the reference of the new dictionary. \<open>ai_improvements\<close> is the analyzer's attribute
  \<^verbatim>\<open>self.ai_improvements\<close>, which the method only reads.
\<close>

definition calculate_ai_impact_metrics_on ::
  "pydict \<Rightarrow> ref \<Rightarrow> heap \<Rightarrow> heap \<times> (error + ref)" where
  "calculate_ai_impact_metrics_on ai_improvements baseline h =
     (let (h0, ai_metrics) = dict_copy h baseline in
      sbind (improve_item ai_improvements baseline ai_metrics
               ''admin_hours_per_patient'' (\<lambda>g. nsub (py 1) g) ''admin_efficiency_gain'') (\<lambda>_.
      sbind (improve_item ai_improvements baseline ai_metrics
               ''processing_time_hours'' (\<lambda>g. nsub (py 1) g) ''processing_speed_gain'') (\<lambda>_.
      sbind (improve_item ai_improvements baseline ai_metrics
               ''billing_error_rate'' (\<lambda>g. nsub (py 1) g) ''error_reduction'') (\<lambda>_.
      sbind (improve_item ai_improvements baseline ai_metrics
               ''patients_per_worker'' (\<lambda>g. nadd (py 1) g) ''throughput_increase'') (\<lambda>_.
      sbind (improve_item ai_improvements baseline ai_metrics
               ''cost_per_patient'' (\<lambda>g. nsub (py 1) g) ''cost_reduction'') (\<lambda>_.
      (\<lambda>h'. (h', Inr ai_metrics))))))) h0)"

text \<open>
  The method as a caller sees it who holds the baseline's contents: it runs on a store
  that holds the baseline alone and the contents of the returned dictionary are read.
\<close>

definition calculate_ai_impact_metrics :: "pydict \<Rightarrow> pydict \<Rightarrow> error + pydict" where
  "calculate_ai_impact_metrics ai_improvements baseline =
     (case calculate_ai_impact_metrics_on ai_improvements 0 [baseline] of
        (h', Inl e) \<Rightarrow> Inl e
      | (h', Inr r) \<Rightarrow> Inr (h' ! r))"

text \<open>The five metric names the transformer recognises.\<close>

definition metric_keys :: "string list" where
  "metric_keys = [''admin_hours_per_patient'', ''processing_time_hours'',
     ''billing_error_rate'', ''patients_per_worker'', ''cost_per_patient'']"


section \<open>The analyzer's attributes\<close>

text \<open>The dictionaries \<^verbatim>\<open>__init__\<close> stores in \<^verbatim>\<open>self.ai_improvements\<close> and
  \<^verbatim>\<open>self.japan_constants\<close>. Callers may replace their items.\<close>

definition default_ai_improvements :: pydict where
  "default_ai_improvements =
     [''admin_efficiency_gain'' \<mapsto> py 0.52,
      ''processing_speed_gain'' \<mapsto> py 0.75,
      ''error_reduction'' \<mapsto> py 0.76,
      ''throughput_increase'' \<mapsto> py 0.24,
      ''cost_reduction'' \<mapsto> py 0.071]"

definition default_japan_constants :: pydict where
  "default_japan_constants =
     [''aging_population_pct'' \<mapsto> py 0.291,
      ''total_healthcare_cost'' \<mapsto> py (45 * 10 ^ 12),
      ''admin_cost_pct'' \<mapsto> py 0.016,
      ''average_hourly_wage'' \<mapsto> py 3000,
      ''patients_per_worker_baseline'' \<mapsto> py 20,
      ''error_cost_multiplier'' \<mapsto> py 1.5]"

section \<open>Tables\<close>

text \<open>
  A pandas \<^verbatim>\<open>DataFrame\<close> with numeric columns: the number of rows, the column labels and
  the values of each column, which are 64-bit integers (dtype \<^verbatim>\<open>int64\<close>) or floats
  (dtype \<^verbatim>\<open>float64\<close>). \<^verbatim>\<open>df.empty\<close> holds when either axis has length zero.
  \<^verbatim>\<open>df[c]\<close> raises \<open>KeyError\<close> for a label that is no column.
\<close>

datatype column_values = Int64 "nat \<Rightarrow> 64 word" | Float64 "nat \<Rightarrow> fval"

record dataframe =
  n_rows :: nat
  column_names :: "string list"
  cells :: "string \<Rightarrow> column_values"

text \<open>A column as \<^verbatim>\<open>df[c]\<close> returns it: the values of its rows.\<close>

datatype series = Int64Series "64 word list" | Float64Series "fval list"

definition DataFrame :: dataframe where
  "DataFrame = \<lparr>n_rows = 0, column_names = [], cells = (\<lambda>c. Float64 (\<lambda>i. NaN))\<rparr>"

definition df_empty :: "dataframe \<Rightarrow> bool" where
  "df_empty df = (n_rows df = 0 \<or> column_names df = [])"

definition df_getitem :: "dataframe \<Rightarrow> string \<Rightarrow> error + series" where
  "df_getitem df c =
     (if c \<in> set (column_names df) then
        Inr (case cells df c of
               Int64 f \<Rightarrow> Int64Series (map f [0..<n_rows df])
             | Float64 g \<Rightarrow> Float64Series (map g [0..<n_rows df]))
      else Inl (KeyError c))"

text \<open>
  \<^verbatim>\<open>Series.sum()\<close>: the sum of an integer column is computed in 64 bits and wraps
  around; the sum of a float column skips \<^verbatim>\<open>nan\<close>. The result is a numpy scalar.
\<close>

definition series_sum :: "series \<Rightarrow> number" where
  "series_sum s =
     (case s of
        Int64Series ws \<Rightarrow> Np (Fin (real_of_int (sint (sum_list ws))))
      | Float64Series vs \<Rightarrow> Np (foldl fadd (Fin 0) (filter (\<lambda>v. v \<noteq> NaN) vs)))"

text \<open>
  \<^verbatim>\<open>Series.mean()\<close>: an integer column is summed as floats; a float column is averaged
  over the values that are not \<^verbatim>\<open>nan\<close>. The mean of no value is \<^verbatim>\<open>nan\<close>.
\<close>

definition series_mean :: "series \<Rightarrow> number" where
  "series_mean s =
     (case s of
        Int64Series ws \<Rightarrow>
          Np (fdiv (Fin (real_of_int (sum_list (map sint ws)))) (Fin (real (length ws))))
      | Float64Series vs \<Rightarrow>
          (let xs = filter (\<lambda>v. v \<noteq> NaN) vs in
           Np (fdiv (foldl fadd (Fin 0) xs) (Fin (real (length xs))))))"

text \<open>\<^verbatim>\<open>Series.iloc[0]\<close>\<close>

definition iloc0 :: "series \<Rightarrow> error + number" where
  "iloc0 s =
     (case s of
        Int64Series [] \<Rightarrow> Inl IndexError
      | Int64Series (w # _) \<Rightarrow> Inr (Np (Fin (real_of_int (sint w))))
      | Float64Series [] \<Rightarrow> Inl IndexError
      | Float64Series (v # _) \<Rightarrow> Inr (Np v))"

text \<open>A dictionary of tables, and \<^verbatim>\<open>data.get(name, pd.DataFrame())\<close>.\<close>

type_synonym tables = "string \<rightharpoonup> dataframe"

definition data_get :: "tables \<Rightarrow> string \<Rightarrow> dataframe" where
  "data_get data name = (case data name of None \<Rightarrow> DataFrame | Some df \<Rightarrow> df)"

section \<open>Baseline metrics calculator: \<^verbatim>\<open>calculate_baseline_metrics\<close>\<close>

text \<open>
  The first statements of the method choose the tables it works on: the argument,
  \<^verbatim>\<open>self.data\<close> when the argument is \<^verbatim>\<open>None\<close>, and what \<^verbatim>\<open>self.load_data()\<close> returns
  when that dictionary is empty. The loader reads files and draws random samples; its
  result is the parameter \<open>loaded\<close>.
\<close>

definition tables_used :: "tables \<Rightarrow> tables \<Rightarrow> tables option \<Rightarrow> tables" where
  "tables_used self_data loaded data =
     (let data = (case data of None \<Rightarrow> self_data | Some d \<Rightarrow> d) in
      if data = Map.empty then loaded else data)"

definition calculate_baseline_metrics ::
  "pydict \<Rightarrow> tables \<Rightarrow> tables \<Rightarrow> tables option \<Rightarrow> error + pydict" where
  "calculate_baseline_metrics japan_constants self_data loaded data =
     (let data = tables_used self_data loaded data;
          admin_data = data_get data ''administrative_costs'';
          workforce_data = data_get data ''workforce'';
          patient_data = data_get data ''patient_volume'';
          expenditure_data = data_get data ''medical_expenditure'';
          baseline = Map.empty
      in
      ebind
        (if \<not> df_empty admin_data then
           ebind (df_getitem admin_data ''hours_per_patient'') (\<lambda>c1.
           ebind (df_getitem admin_data ''avg_processing_time'') (\<lambda>c2.
           ebind (df_getitem admin_data ''error_rate'') (\<lambda>c3.
           Inr (baseline(''admin_hours_per_patient'' \<mapsto> series_mean c1,
                         ''processing_time_hours'' \<mapsto> series_mean c2,
                         ''billing_error_rate'' \<mapsto> series_mean c3)))))
         else
           Inr (baseline(''admin_hours_per_patient'' \<mapsto> py 2.0,
                         ''processing_time_hours'' \<mapsto> py 4.0,
                         ''billing_error_rate'' \<mapsto> py 0.025))) (\<lambda>baseline.
      ebind
        (if \<not> df_empty workforce_data \<and> \<not> df_empty patient_data then
           ebind (df_getitem workforce_data ''total_workers'') (\<lambda>ws.
           ebind (df_getitem patient_data ''total_patients'') (\<lambda>ps.
           let total_workers = series_sum ws; total_patients = series_sum ps in
           ebind (if ngt total_workers (py 0) then truediv total_patients total_workers
                  else Inr (py 20)) (\<lambda>v.
           Inr (baseline(''patients_per_worker'' \<mapsto> v)))))
         else
           ebind (getitem japan_constants ''patients_per_worker_baseline'') (\<lambda>v.
           Inr (baseline(''patients_per_worker'' \<mapsto> v)))) (\<lambda>baseline.
      ebind
        (if \<not> df_empty expenditure_data then
           ebind (ebind (df_getitem expenditure_data ''total_expenditure'') iloc0) (\<lambda>total_cost.
           ebind (if \<not> df_empty patient_data
                  then ebind (df_getitem patient_data ''total_patients'') (\<lambda>ps. Inr (series_sum ps))
                  else Inr (py 47000000)) (\<lambda>total_patients.
           ebind (truediv total_cost total_patients) (\<lambda>v.
           Inr (baseline(''cost_per_patient'' \<mapsto> v)))))
         else
           ebind (getitem japan_constants ''total_healthcare_cost'') (\<lambda>c.
           ebind (truediv c (py 47000000)) (\<lambda>v.
           Inr (baseline(''cost_per_patient'' \<mapsto> v))))) (\<lambda>baseline.
      Inr baseline))))"

section \<open>Savings decomposer: \<^verbatim>\<open>calculate_cost_savings\<close>\<close>

text \<open>
  The lookups happen in the order of the source's expressions, left to right. The
  division of the two throughput metrics is \<open>truediv\<close>: it raises on a zero divisor when
  both metrics are Python numbers and returns an infinity or \<^verbatim>\<open>nan\<close> when either is a
  numpy scalar, as the metrics computed from tables are.
\<close>

definition calculate_cost_savings :: "pydict \<Rightarrow> pydict \<Rightarrow> pydict \<Rightarrow> error + pydict" where
  "calculate_cost_savings japan_constants baseline ai_metrics =
     (let annual_patients = py 47000000 in
      ebind (getitem japan_constants ''average_hourly_wage'') (\<lambda>hourly_wage.
      let savings = Map.empty in
      ebind (getitem baseline ''admin_hours_per_patient'') (\<lambda>b_admin.
      ebind (getitem ai_metrics ''admin_hours_per_patient'') (\<lambda>a_admin.
      let admin_hours_saved = nmul (nsub b_admin a_admin) annual_patients;
          savings = savings(''admin_labor_savings'' \<mapsto> nmul admin_hours_saved hourly_wage) in
      ebind (getitem baseline ''billing_error_rate'') (\<lambda>b_err.
      ebind (getitem ai_metrics ''billing_error_rate'') (\<lambda>a_err.
      let error_reduction = nsub b_err a_err in
      ebind (getitem baseline ''cost_per_patient'') (\<lambda>b_cost.
      ebind (getitem baseline ''billing_error_rate'') (\<lambda>b_err2.
      ebind (getitem japan_constants ''error_cost_multiplier'') (\<lambda>mult.
      let baseline_error_cost = nmul (nmul b_cost b_err2) mult;
          savings = savings(''error_cost_savings'' \<mapsto>
                      nmul (nmul error_reduction baseline_error_cost) annual_patients) in
      ebind (getitem ai_metrics ''patients_per_worker'') (\<lambda>a_ppw.
      ebind (getitem baseline ''patients_per_worker'') (\<lambda>b_ppw.
      ebind (truediv a_ppw b_ppw) (\<lambda>ratio.
      let additional_patients = nmul annual_patients (nsub ratio (py 1)) in
      ebind (getitem baseline ''cost_per_patient'') (\<lambda>b_cost2.
      let avg_revenue_per_patient = nmul b_cost2 (py 0.7);
          savings = savings(''additional_revenue'' \<mapsto>
                      nmul additional_patients avg_revenue_per_patient) in
      ebind (getitem baseline ''processing_time_hours'') (\<lambda>b_proc.
      ebind (getitem ai_metrics ''processing_time_hours'') (\<lambda>a_proc.
      let processing_hours_saved =
            nmul (nmul (nsub b_proc a_proc) annual_patients) (py 0.1);
          savings = savings(''processing_efficiency_savings'' \<mapsto>
                      nmul processing_hours_saved hourly_wage) in
      ebind (getitem savings ''admin_labor_savings'') (\<lambda>s1.
      ebind (getitem savings ''error_cost_savings'') (\<lambda>s2.
      ebind (getitem savings ''additional_revenue'') (\<lambda>s3.
      ebind (getitem savings ''processing_efficiency_savings'') (\<lambda>s4.
      let savings = savings(''total_annual_savings'' \<mapsto> py_sum [s1, s2, s3, s4]) in
      Inr savings)))))))))))))))))))"

section \<open>ROI projector: \<^verbatim>\<open>calculate_roi_analysis\<close>\<close>

text \<open>One item of \<^verbatim>\<open>yearly_analysis\<close>.\<close>

record year_analysis =
  year :: int
  savings :: number
  costs :: number
  net_benefit :: number
  cumulative_net :: number
  roi_percentage :: number

text \<open>The returned dictionary; \<open>final_net_benefit\<close> is its key \<^verbatim>\<open>'net_benefit'\<close>.\<close>

record roi_analysis =
  yearly_analysis :: "year_analysis list"
  total_roi_percentage :: number
  payback_period_years :: "int option"
  total_investment :: number
  total_savings :: number
  final_net_benefit :: number

text \<open>
  The expression
  \<^verbatim>\<open>(cumulative_savings / upfront_cost) * 100 if upfront_cost > 0 else 0\<close>.
\<close>

definition roi_of :: "number \<Rightarrow> number \<Rightarrow> error + number" where
  "roi_of cumulative_savings upfront_cost =
     (if ngt upfront_cost (py 0)
      then ebind (truediv cumulative_savings upfront_cost) (\<lambda>q. Inr (nmul q (py 100)))
      else Inr (py 0))"

text \<open>
  The loop \<^verbatim>\<open>for year in range(1, years + 1)\<close> over the years still to come; the state
  is \<open>(cumulative_savings, cumulative_costs, yearly_analysis)\<close>. The power
  \<^verbatim>\<open>1.05 ** (year - 1)\<close> is evaluated first and may raise.
\<close>

fun roi_loop ::
  "number \<Rightarrow> number \<Rightarrow> number \<Rightarrow> int list \<Rightarrow> number \<times> number \<times> year_analysis list
    \<Rightarrow> error + number \<times> number \<times> year_analysis list" where
  "roi_loop annual_savings annual_maintenance upfront_cost [] st = Inr st"
| "roi_loop annual_savings annual_maintenance upfront_cost (y # ys)
      (cumulative_savings, cumulative_costs, analysis) =
     ebind (py_float_pow 1.05 (y - 1)) (\<lambda>growth.
     let yearly_savings = nmul annual_savings growth;
         yearly_costs = annual_maintenance;
         net_yearly_benefit = nsub yearly_savings yearly_costs;
         cumulative_savings = nadd cumulative_savings net_yearly_benefit;
         cumulative_costs = nadd cumulative_costs yearly_costs
     in
     ebind (roi_of cumulative_savings upfront_cost) (\<lambda>roi.
     roi_loop annual_savings annual_maintenance upfront_cost ys
       (cumulative_savings, cumulative_costs,
        analysis @
          [\<lparr>year = y, savings = yearly_savings, costs = yearly_costs,
            net_benefit = net_yearly_benefit, cumulative_net = cumulative_savings,
            roi_percentage = roi\<rparr>])))"

text \<open>The payback loop: it stops (\<^verbatim>\<open>break\<close>) at the first item it accepts.\<close>

fun payback_loop :: "int option \<Rightarrow> year_analysis list \<Rightarrow> int option" where
  "payback_loop payback_years [] = payback_years"
| "payback_loop payback_years (analysis # rest) =
     (if nge (cumulative_net analysis) (py 0) \<and> payback_years = None
      then Some (year analysis)
      else payback_loop payback_years rest)"

text \<open>
  The first block of the method: \<open>(upfront_cost, annual_maintenance)\<close>. \<open>data\<close> is the
  analyzer's attribute \<^verbatim>\<open>self.data\<close>; the sums of its cost columns are numpy scalars
  and the defaults are Python floats.
\<close>

definition ai_implementation_costs :: "tables \<Rightarrow> error + number \<times> number" where
  "ai_implementation_costs data =
     (case data ''ai_costs'' of
        None \<Rightarrow> Inr (py (3 * 10 ^ 12), py (6 * 10 ^ 11))
      | Some ai_costs \<Rightarrow>
          if \<not> df_empty ai_costs then
            ebind (df_getitem ai_costs ''upfront_cost'') (\<lambda>us.
            ebind (df_getitem ai_costs ''annual_maintenance'') (\<lambda>ms.
            Inr (series_sum us, series_sum ms)))
          else Inr (py (3 * 10 ^ 12), py (6 * 10 ^ 11)))"

text \<open>The method; \<open>years\<close> is a Python \<^verbatim>\<open>int\<close>.\<close>

definition calculate_roi_analysis ::
  "tables \<Rightarrow> pydict \<Rightarrow> int \<Rightarrow> error + roi_analysis" where
  "calculate_roi_analysis data savings_dict years =
     ebind (ai_implementation_costs data) (\<lambda>(upfront_cost, annual_maintenance).
     ebind (getitem savings_dict ''total_annual_savings'') (\<lambda>annual_savings.
     ebind (roi_loop annual_savings annual_maintenance upfront_cost [1..years]
              (py 0, upfront_cost, [])) (\<lambda>(cumulative_savings, cumulative_costs, analysis).
     let payback_years = payback_loop None analysis in
     ebind (roi_of cumulative_savings upfront_cost) (\<lambda>total_roi.
     Inr \<lparr>yearly_analysis = analysis,
          total_roi_percentage = total_roi,
          payback_period_years = payback_years,
          total_investment = nadd upfront_cost (nmul annual_maintenance (py (of_int years))),
          total_savings = nadd cumulative_savings upfront_cost,
          final_net_benefit = cumulative_savings\<rparr>))))"

section \<open>Inputs\<close>

text \<open>Inputs of the tests and of the specification's scenarios.\<close>

definition test_baseline :: pydict where
  "test_baseline =
     [''admin_hours_per_patient'' \<mapsto> py 2.0,
      ''processing_time_hours'' \<mapsto> py 4.0,
      ''billing_error_rate'' \<mapsto> py 0.025,
      ''patients_per_worker'' \<mapsto> py 20,
      ''cost_per_patient'' \<mapsto> py 250000]"

text \<open>What the transformer returns for \<open>test_baseline\<close> under the default factors.\<close>

definition test_ai_metrics :: pydict where
  "test_ai_metrics =
     [''admin_hours_per_patient'' \<mapsto> py 0.96,
      ''processing_time_hours'' \<mapsto> py 1.0,
      ''billing_error_rate'' \<mapsto> py 0.006,
      ''patients_per_worker'' \<mapsto> py 24.8,
      ''cost_per_patient'' \<mapsto> py 232250]"

text \<open>A savings dictionary, and a cost table whose upfront costs sum to zero.\<close>

definition test_savings :: pydict where
  "test_savings = [''total_annual_savings'' \<mapsto> py 1000]"

definition free_ai_costs :: dataframe where
  "free_ai_costs =
     \<lparr>n_rows = 1, column_names = [''upfront_cost'', ''annual_maintenance''],
      cells = (\<lambda>c. Float64 (\<lambda>i. if c = ''upfront_cost'' then Fin 0 else Fin 100))\<rparr>"

text \<open>Tables of the tests: one expenditure row, three regions of patients and of
  workers; an expenditure table whose first row differs from the constant
  \<^verbatim>\<open>total_healthcare_cost\<close>; and two regions that report workers and no patient.\<close>

definition sample_expenditure_data :: dataframe where
  "sample_expenditure_data =
     \<lparr>n_rows = 1, column_names = [''year'', ''total_expenditure''],
      cells = (\<lambda>c. if c = ''total_expenditure'' then Float64 (\<lambda>i. Fin (45 * 10 ^ 12))
                    else Int64 (\<lambda>i. 2023))\<rparr>"

definition sample_patient_data :: dataframe where
  "sample_patient_data =
     \<lparr>n_rows = 3, column_names = [''year'', ''total_patients''],
      cells = (\<lambda>c. if c = ''total_patients''
                    then Int64 (\<lambda>i. [1000000, 800000, 1200000] ! i)
                    else Int64 (\<lambda>i. 2023))\<rparr>"

definition doubled_expenditure_data :: dataframe where
  "doubled_expenditure_data =
     \<lparr>n_rows = 1, column_names = [''year'', ''total_expenditure''],
      cells = (\<lambda>c. if c = ''total_expenditure'' then Float64 (\<lambda>i. Fin (90 * 10 ^ 12))
                    else Int64 (\<lambda>i. 2023))\<rparr>"

definition idle_workforce_data :: dataframe where
  "idle_workforce_data =
     \<lparr>n_rows = 2, column_names = [''region_id'', ''total_workers''],
      cells = (\<lambda>c. if c = ''total_workers'' then Int64 (\<lambda>i. [3, 5] ! i)
                    else Int64 (\<lambda>i. [1, 2] ! i))\<rparr>"

definition no_patient_data :: dataframe where
  "no_patient_data =
     \<lparr>n_rows = 2, column_names = [''year'', ''total_patients''],
      cells = (\<lambda>c. if c = ''total_patients'' then Int64 (\<lambda>i. 0)
                    else Int64 (\<lambda>i. 2023))\<rparr>"

section \<open>The projection in closed form\<close>

text \<open>The savings and the net benefit of year \<open>y\<close>.\<close>

definition savings_of_year :: "number \<Rightarrow> int \<Rightarrow> number" where
  "savings_of_year annual_savings y = nmul annual_savings (py (1.05 ^ nat (y - 1)))"

definition net_of_year :: "number \<Rightarrow> number \<Rightarrow> int \<Rightarrow> number" where
  "net_of_year annual_savings annual_maintenance y =
     nsub (savings_of_year annual_savings y) annual_maintenance"

text \<open>The running sum of the net benefits of the years \<open>1..y\<close>, from the \<^verbatim>\<open>int\<close> \<open>0\<close>.\<close>

definition cumulative_net_upto :: "number \<Rightarrow> number \<Rightarrow> int \<Rightarrow> number" where
  "cumulative_net_upto annual_savings annual_maintenance y =
     foldl nadd (py 0) (map (net_of_year annual_savings annual_maintenance) [1..y])"

text \<open>The ROI of a cumulative net benefit, under the guard of the source.\<close>

definition guarded_roi :: "number \<Rightarrow> number \<Rightarrow> number" where
  "guarded_roi cum upfront_cost =
     (if ngt upfront_cost (py 0)
      then nmul (coerce cum upfront_cost (fdiv (fval_of cum) (fval_of upfront_cost))) (py 100)
      else py 0)"

text \<open>The item the projector appends for year \<open>y\<close>, given the cumulative net benefit
  \<open>cum\<close> reached with it.\<close>

definition item_of_year :: "number \<Rightarrow> number \<Rightarrow> number \<Rightarrow> int \<Rightarrow> number \<Rightarrow> year_analysis" where
  "item_of_year annual_savings annual_maintenance upfront_cost y cum =
     \<lparr>year = y, savings = savings_of_year annual_savings y, costs = annual_maintenance,
      net_benefit = net_of_year annual_savings annual_maintenance y,
      cumulative_net = cum,
      roi_percentage = guarded_roi cum upfront_cost\<rparr>"

definition projection_items :: "number \<Rightarrow> number \<Rightarrow> number \<Rightarrow> int \<Rightarrow> year_analysis list" where
  "projection_items s m u years =
     map (\<lambda>y. item_of_year s m u y (cumulative_net_upto s m y)) [1..years]"

text \<open>The years whose growth factor \<^verbatim>\<open>1.05 ** (year - 1)\<close> is a finite double.\<close>

definition growth_representable :: "int \<Rightarrow> bool" where
  "growth_representable y = ((1.05::real) ^ nat (y - 1) \<le> float_max)"

section \<open>Arithmetic of numbers\<close>

lemma fadd_zero_left: "fadd (Fin 0) v = v"
  by (cases v) simp_all

lemma nadd_zero_left: "nadd (py 0) x = x"
  by (cases x) (simp_all add: nadd_def coerce_def fadd_zero_left)

lemma fadd_NaN: "fadd x NaN = NaN" "fadd NaN x = NaN"
  by (cases x; simp)+

lemma fval_of_coerce: "fval_of (coerce x y v) = v"
  by (simp add: coerce_def)

lemma is_np_coerce: "is_np (coerce x y v) = (is_np x \<or> is_np y)"
  by (simp add: coerce_def)

lemma fval_of_ops:
  "fval_of (nadd x y) = fadd (fval_of x) (fval_of y)"
  "fval_of (nsub x y) = fsub (fval_of x) (fval_of y)"
  "fval_of (nmul x y) = fmul (fval_of x) (fval_of y)"
  by (simp_all add: nadd_def nsub_def nmul_def fval_of_coerce)

text \<open>A value that is not finite stays so under sums, differences and products, and a
  division by zero yields no finite value.\<close>

lemma fneg_finite: "finite_value (fneg x) = finite_value x"
  by (cases x) simp_all

lemma fadd_finite: "finite_value (fadd x y) \<Longrightarrow> finite_value x \<and> finite_value y"
  by (cases x; cases y) simp_all

lemma fsub_finite: "finite_value (fsub x y) \<Longrightarrow> finite_value x \<and> finite_value y"
  unfolding fsub_def using fadd_finite[of x "fneg y"] by (simp add: fneg_finite)

lemma fmul_finite: "finite_value (fmul x y) \<Longrightarrow> finite_value x \<and> finite_value y"
  by (cases x; cases y) (simp_all split: if_splits)

lemma fdiv_zero_not_finite: "\<not> finite_value (fdiv x (Fin 0))"
  by (cases x) simp_all

lemma truediv_np:
  "is_np x \<or> is_np y \<Longrightarrow> truediv x y = Inr (Np (fdiv (fval_of x) (fval_of y)))"
  by (auto simp: truediv_def coerce_def)

lemma truediv_py_zero:
  "\<not> is_np x \<Longrightarrow> \<not> is_np y \<Longrightarrow> fval_of y = Fin 0 \<Longrightarrow> truediv x y = Inl ZeroDivisionError"
  by (simp add: truediv_def)

lemma truediv_Inl: "truediv x y = Inl e \<Longrightarrow> e = ZeroDivisionError"
  by (auto simp: truediv_def split: if_splits)

section \<open>Sequencing and lookups\<close>

lemma ebind_simps:
  "ebind (Inl e) f = Inl e" "ebind (Inr v) f = f v"
  by (simp_all add: ebind_def)

lemma getitem_simps:
  "d k = None \<Longrightarrow> getitem d k = Inl (KeyError k)"
  "d k = Some v \<Longrightarrow> getitem d k = Inr v"
  by (simp_all add: getitem_def)

section \<open>The scenario transformer on the store\<close>

lemma improve_item_frame:
  assumes "improve_item imp b a k fn f h = (h', res)"
  shows "length h' = length h"
    and "r \<noteq> a \<Longrightarrow> h' ! r = h ! r"
    and "a < length h \<Longrightarrow> k' \<noteq> k \<Longrightarrow> (h' ! a) k' = (h ! a) k'"
  using assms
  by (auto simp: improve_item_def dict_setitem_def split: sum.splits)

text \<open>
  A statement followed by the rest of the body: what the rest leaves alone, outside the
  keys \<open>K\<close> of the dictionary at \<open>a\<close>, the whole leaves alone outside \<open>insert k K\<close>.
\<close>

lemma sbind_improve_frame:
  assumes "sbind (improve_item imp b a k fn f) (\<lambda>_. m) h = (h', res)"
    and "\<And>h1 h2 res2. m h1 = (h2, res2) \<Longrightarrow>
           length h2 = length h1 \<and> (\<forall>r. r \<noteq> a \<longrightarrow> h2 ! r = h1 ! r) \<and>
           (a < length h1 \<longrightarrow> (\<forall>k'. k' \<notin> K \<longrightarrow> (h2 ! a) k' = (h1 ! a) k')) \<and>
           (\<forall>x. res2 = Inr x \<longrightarrow> x = a)"
  shows "length h' = length h \<and> (\<forall>r. r \<noteq> a \<longrightarrow> h' ! r = h ! r) \<and>
         (a < length h \<longrightarrow> (\<forall>k'. k' \<notin> insert k K \<longrightarrow> (h' ! a) k' = (h ! a) k')) \<and>
         (\<forall>x. res = Inr x \<longrightarrow> x = a)"
proof -
  obtain h1 r1 where s1: "improve_item imp b a k fn f h = (h1, r1)"
    by (cases "improve_item imp b a k fn f h")
  note fr = improve_item_frame[OF s1]
  show ?thesis
  proof (cases r1)
    case (Inl e)
    with assms(1) s1 have "h' = h1" "res = Inl e" by (simp_all add: sbind_def)
    with fr show ?thesis by auto
  next
    case (Inr u)
    with assms(1) s1 have "m h1 = (h', res)" by (simp add: sbind_def)
    from assms(2)[OF this] fr show ?thesis by auto
  qed
qed

lemma calculate_ai_impact_metrics_on_frame:
  assumes "calculate_ai_impact_metrics_on imp b h = (h', res)"
  shows "length h' = Suc (length h) \<and> (\<forall>r < length h. h' ! r = h ! r) \<and>
     (\<forall>k'. k' \<notin> set metric_keys \<longrightarrow> (h' ! length h) k' = (h ! b) k') \<and>
     (\<forall>x. res = Inr x \<longrightarrow> x = length h)"
proof -
  let ?a = "length h" and ?h0 = "h @ [h ! b]"
  have ret: "\<And>h1 h2 res2. (h1, Inr ?a :: error + ref) = (h2, res2) \<Longrightarrow>
      length h2 = length h1 \<and> (\<forall>r. r \<noteq> ?a \<longrightarrow> h2 ! r = h1 ! r) \<and>
      (?a < length h1 \<longrightarrow> (\<forall>k'. k' \<notin> {} \<longrightarrow> (h2 ! ?a) k' = (h1 ! ?a) k')) \<and>
      (\<forall>x. res2 = Inr x \<longrightarrow> x = ?a)"
    by auto
  from assms have run:
    "sbind (improve_item imp b ?a ''admin_hours_per_patient'' (\<lambda>g. nsub (py 1) g) ''admin_efficiency_gain'') (\<lambda>_.
     sbind (improve_item imp b ?a ''processing_time_hours'' (\<lambda>g. nsub (py 1) g) ''processing_speed_gain'') (\<lambda>_.
     sbind (improve_item imp b ?a ''billing_error_rate'' (\<lambda>g. nsub (py 1) g) ''error_reduction'') (\<lambda>_.
     sbind (improve_item imp b ?a ''patients_per_worker'' (\<lambda>g. nadd (py 1) g) ''throughput_increase'') (\<lambda>_.
     sbind (improve_item imp b ?a ''cost_per_patient'' (\<lambda>g. nsub (py 1) g) ''cost_reduction'') (\<lambda>_.
     (\<lambda>h'. (h', Inr ?a))))))) ?h0 = (h', res)"
    by (simp add: calculate_ai_impact_metrics_on_def dict_copy_def)
  have "length h' = length ?h0 \<and> (\<forall>r. r \<noteq> ?a \<longrightarrow> h' ! r = ?h0 ! r) \<and>
     (?a < length ?h0 \<longrightarrow>
       (\<forall>k'. k' \<notin> insert ''admin_hours_per_patient'' (insert ''processing_time_hours''
          (insert ''billing_error_rate'' (insert ''patients_per_worker''
          (insert ''cost_per_patient'' {}))))
          \<longrightarrow> (h' ! ?a) k' = (?h0 ! ?a) k')) \<and>
     (\<forall>x. res = Inr x \<longrightarrow> x = ?a)"
    by (rule sbind_improve_frame[OF run], rule sbind_improve_frame, assumption,
        rule sbind_improve_frame, assumption, rule sbind_improve_frame, assumption,
        rule sbind_improve_frame, assumption, rule ret)
  then show ?thesis
    by (auto simp: metric_keys_def nth_append)
qed

text \<open>The transformer on values, statement by statement.\<close>

lemma calculate_ai_impact_metrics_eq:
  "calculate_ai_impact_metrics imp b =
    ebind (getitem b ''admin_hours_per_patient'') (\<lambda>b1.
    ebind (getitem imp ''admin_efficiency_gain'') (\<lambda>g1.
    ebind (getitem b ''processing_time_hours'') (\<lambda>b2.
    ebind (getitem imp ''processing_speed_gain'') (\<lambda>g2.
    ebind (getitem b ''billing_error_rate'') (\<lambda>b3.
    ebind (getitem imp ''error_reduction'') (\<lambda>g3.
    ebind (getitem b ''patients_per_worker'') (\<lambda>b4.
    ebind (getitem imp ''throughput_increase'') (\<lambda>g4.
    ebind (getitem b ''cost_per_patient'') (\<lambda>b5.
    ebind (getitem imp ''cost_reduction'') (\<lambda>g5.
    Inr (b(''admin_hours_per_patient'' \<mapsto> nmul b1 (nsub (py 1) g1),
           ''processing_time_hours'' \<mapsto> nmul b2 (nsub (py 1) g2),
           ''billing_error_rate'' \<mapsto> nmul b3 (nsub (py 1) g3),
           ''patients_per_worker'' \<mapsto> nmul b4 (nadd (py 1) g4),
           ''cost_per_patient'' \<mapsto> nmul b5 (nsub (py 1) g5)))))))))))))"
  by (simp add: calculate_ai_impact_metrics_def calculate_ai_impact_metrics_on_def dict_copy_def
      sbind_def improve_item_def dict_getitem_def dict_setitem_def getitem_def ebind_def
      split: option.splits)

lemma calculate_ai_impact_metrics_Inr:
  "calculate_ai_impact_metrics imp b = Inr improved \<Longrightarrow>
    \<exists>b1 g1 b2 g2 b3 g3 b4 g4 b5 g5.
      b ''admin_hours_per_patient'' = Some b1 \<and> imp ''admin_efficiency_gain'' = Some g1 \<and>
      b ''processing_time_hours'' = Some b2 \<and> imp ''processing_speed_gain'' = Some g2 \<and>
      b ''billing_error_rate'' = Some b3 \<and> imp ''error_reduction'' = Some g3 \<and>
      b ''patients_per_worker'' = Some b4 \<and> imp ''throughput_increase'' = Some g4 \<and>
      b ''cost_per_patient'' = Some b5 \<and> imp ''cost_reduction'' = Some g5 \<and>
      improved = b(''admin_hours_per_patient'' \<mapsto> nmul b1 (nsub (py 1) g1),
           ''processing_time_hours'' \<mapsto> nmul b2 (nsub (py 1) g2),
           ''billing_error_rate'' \<mapsto> nmul b3 (nsub (py 1) g3),
           ''patients_per_worker'' \<mapsto> nmul b4 (nadd (py 1) g4),
           ''cost_per_patient'' \<mapsto> nmul b5 (nsub (py 1) g5))"
  unfolding calculate_ai_impact_metrics_eq
  by (auto simp: ebind_def getitem_def split: option.splits)

lemma calculate_ai_impact_metrics_Inl:
  "calculate_ai_impact_metrics imp b = Inl e \<Longrightarrow> \<exists>k. e = KeyError k"
  unfolding calculate_ai_impact_metrics_eq
  by (auto simp: ebind_def getitem_def split: option.splits)

text \<open>
  C3, as the code has it. The transformer reads each of the five metrics with
  \<^verbatim>\<open>baseline[k]\<close>, so a baseline that lacks one of them makes the call raise \<open>KeyError\<close>:
  no improved mapping is returned and the remaining fields are not transformed. When the
  call does return, the improved mapping has exactly the keys of the baseline, so no
  field is invented.
\<close>

theorem absent_metric_raises_KeyError:
  "(k \<in> set metric_keys \<and> baseline k = None \<longrightarrow>
      (\<exists>k'. calculate_ai_impact_metrics imp baseline = Inl (KeyError k'))) \<and>
   (calculate_ai_impact_metrics imp baseline = Inr improved \<longrightarrow> dom improved = dom baseline)"
proof (intro conjI impI)
  assume a: "k \<in> set metric_keys \<and> baseline k = None"
  show "\<exists>k'. calculate_ai_impact_metrics imp baseline = Inl (KeyError k')"
  proof (cases "calculate_ai_impact_metrics imp baseline")
    case (Inl e)
    with calculate_ai_impact_metrics_Inl show ?thesis by blast
  next
    case (Inr improved)
    from calculate_ai_impact_metrics_Inr[OF this] a show ?thesis
      by (auto simp: metric_keys_def)
  qed
next
  assume "calculate_ai_impact_metrics imp baseline = Inr improved"
  from calculate_ai_impact_metrics_Inr[OF this] show "dom improved = dom baseline"
    by (auto split: if_splits)
qed

text \<open>
  The theorem at the test's baseline, without its cost metric and as it is, under the
  default improvement factors.
\<close>

theorem absent_metric_raises_KeyError_witness:
  "(''cost_per_patient'' \<in> set metric_keys \<and>
    (test_baseline(''cost_per_patient'' := None)) ''cost_per_patient'' = None \<and>
    (\<exists>k'. calculate_ai_impact_metrics default_ai_improvements
             (test_baseline(''cost_per_patient'' := None)) = Inl (KeyError k'))) \<and>
   (\<exists>improved. calculate_ai_impact_metrics default_ai_improvements test_baseline = Inr improved \<and>
      dom improved = dom test_baseline)"
proof -
  have "\<exists>improved. calculate_ai_impact_metrics default_ai_improvements test_baseline = Inr improved"
    by (simp add: calculate_ai_impact_metrics_eq ebind_def getitem_def
        default_ai_improvements_def test_baseline_def)
  then obtain improved
    where r: "calculate_ai_impact_metrics default_ai_improvements test_baseline = Inr improved" ..
  from r absent_metric_raises_KeyError[of "''cost_per_patient''" test_baseline
      default_ai_improvements improved]
  have "dom improved = dom test_baseline" by simp
  with r absent_metric_raises_KeyError[of "''cost_per_patient''"
      "test_baseline(''cost_per_patient'' := None)" default_ai_improvements]
  show ?thesis by (simp add: metric_keys_def)
qed

text \<open>
  C3 as stated fails: on the test's baseline without \<^verbatim>\<open>cost_per_patient\<close> the
  transformer does not succeed on the remaining four fields, it raises.
\<close>

theorem absent_metric_not_tolerated:
  "calculate_ai_impact_metrics default_ai_improvements
     (test_baseline(''cost_per_patient'' := None)) = Inl (KeyError ''cost_per_patient'')"
  by (simp add: calculate_ai_impact_metrics_eq ebind_def getitem_def
      default_ai_improvements_def test_baseline_def)

text \<open>
  C4, amended. For a baseline error rate in \<open>[0, 1]\<close> and an error-reduction factor in
  \<open>[0, 1)\<close>, the improved error rate is not above the baseline's, and the two are equal
  whenever the factor is \<open>0\<close> or the baseline error rate is \<open>0\<close>.
\<close>

theorem error_rate_not_increased:
  assumes "calculate_ai_impact_metrics imp baseline = Inr improved"
      and "baseline ''billing_error_rate'' = Some e" "fval_of e = Fin er" "0 \<le> er" "er \<le> 1"
      and "imp ''error_reduction'' = Some r" "fval_of r = Fin rr" "0 \<le> rr" "rr < 1"
  shows "\<exists>e'. improved ''billing_error_rate'' = Some e' \<and> nge e e' \<and>
           (rr = 0 \<or> er = 0 \<longrightarrow> fval_of e' = fval_of e)"
proof -
  from calculate_ai_impact_metrics_Inr[OF assms(1)] assms(2,6)
  have i: "improved ''billing_error_rate'' = Some (nmul e (nsub (py 1) r))" by auto
  have v: "fval_of (nmul e (nsub (py 1) r)) = Fin (er * (1 - rr))"
    using assms(3,7) by (simp add: nmul_def nsub_def coerce_def fsub_def)
  have "er * (1 - rr) \<le> er" using assms(4,8) by (simp add: mult_left_le)
  then have "nge e (nmul e (nsub (py 1) r))"
    using v assms(3) by (auto simp: nge_def fle_def)
  moreover have "rr = 0 \<or> er = 0 \<longrightarrow> fval_of (nmul e (nsub (py 1) r)) = fval_of e"
    using v assms(3) by auto
  ultimately show ?thesis using i by simp
qed

text \<open>
  The theorem at the test's baseline under the default factors, where the error rate
  drops, and at a factor of \<open>0\<close>, where it stays.
\<close>

theorem error_rate_not_increased_witness:
  "(\<exists>improved. calculate_ai_impact_metrics default_ai_improvements test_baseline = Inr improved \<and>
     test_baseline ''billing_error_rate'' = Some (py 0.025) \<and>
     (0::real) \<le> 0.025 \<and> (0.025::real) \<le> 1 \<and>
     default_ai_improvements ''error_reduction'' = Some (py 0.76) \<and>
     (0::real) \<le> 0.76 \<and> (0.76::real) < 1 \<and>
     (\<exists>e'. improved ''billing_error_rate'' = Some e' \<and> nge (py 0.025) e')) \<and>
   (\<exists>improved. calculate_ai_impact_metrics (default_ai_improvements(''error_reduction'' \<mapsto> py 0))
        test_baseline = Inr improved \<and>
     (\<exists>e'. improved ''billing_error_rate'' = Some e' \<and> fval_of e' = Fin 0.025))"
proof -
  let ?imp0 = "default_ai_improvements(''error_reduction'' \<mapsto> py 0)"
  have "\<exists>improved. calculate_ai_impact_metrics default_ai_improvements test_baseline = Inr improved"
    by (simp add: calculate_ai_impact_metrics_eq ebind_def getitem_def
        default_ai_improvements_def test_baseline_def)
  then obtain improved
    where r: "calculate_ai_impact_metrics default_ai_improvements test_baseline = Inr improved" ..
  have "\<exists>improved. calculate_ai_impact_metrics ?imp0 test_baseline = Inr improved"
    by (simp add: calculate_ai_impact_metrics_eq ebind_def getitem_def
        default_ai_improvements_def test_baseline_def)
  then obtain improved0
    where r0: "calculate_ai_impact_metrics ?imp0 test_baseline = Inr improved0" ..
  have e: "test_baseline ''billing_error_rate'' = Some (py 0.025)"
    by (simp add: test_baseline_def)
  have f: "default_ai_improvements ''error_reduction'' = Some (py 0.76)"
    by (simp add: default_ai_improvements_def)
  have f0: "?imp0 ''error_reduction'' = Some (py 0)" by simp
  from error_rate_not_increased[OF r e _ _ _ f, of "0.025" "0.76"]
  have a: "\<exists>e'. improved ''billing_error_rate'' = Some e' \<and> nge (py 0.025) e'" by auto
  from error_rate_not_increased[OF r0 e _ _ _ f0, of "0.025" 0]
  have b: "\<exists>e'. improved0 ''billing_error_rate'' = Some e' \<and> fval_of e' = Fin 0.025" by auto
  from a b r r0 e f show ?thesis by auto
qed

text \<open>
  C4 as stated fails: with a baseline error rate of \<open>0\<close> the improved error rate equals
  the baseline's although the error-reduction factor is \<open>0.76\<close>.
\<close>

theorem error_rate_equal_without_zero_reduction:
  "\<exists>improved.
      calculate_ai_impact_metrics default_ai_improvements
        (test_baseline(''billing_error_rate'' \<mapsto> py 0)) = Inr improved \<and>
      improved ''billing_error_rate'' =
        (test_baseline(''billing_error_rate'' \<mapsto> py 0)) ''billing_error_rate'' \<and>
      default_ai_improvements ''error_reduction'' = Some (py 0.76) \<and> (0.76 :: real) \<noteq> 0"
  by (simp add: calculate_ai_impact_metrics_eq ebind_def getitem_def
      default_ai_improvements_def test_baseline_def nmul_def nsub_def coerce_def fsub_def)

text \<open>
  C10. The transformer writes to the copy it allocates: after the call, whatever its
  outcome, the dictionary the caller passed (and every other dictionary of the store) is
  as before; and when the call returns, its result is a new dictionary in which every
  key other than the five metric names has the entry of the baseline.
\<close>

theorem baseline_not_mutated:
  assumes "baseline < length h"
      and "calculate_ai_impact_metrics_on imp baseline h = (h', res)"
  shows "h' ! baseline = h ! baseline \<and> (\<forall>r < length h. h' ! r = h ! r) \<and>
         (\<forall>improved. res = Inr improved \<longrightarrow>
            improved \<noteq> baseline \<and> improved < length h' \<and>
            (\<forall>k. k \<notin> set metric_keys \<longrightarrow> (h' ! improved) k = (h ! baseline) k))"
  using calculate_ai_impact_metrics_on_frame[OF assms(2)] assms(1) by auto

theorem baseline_not_mutated_witness:
  "\<exists>h'. (0::nat) < length [test_baseline(''hospital_id'' \<mapsto> py 7)] \<and>
      calculate_ai_impact_metrics_on default_ai_improvements 0
        [test_baseline(''hospital_id'' \<mapsto> py 7)] = (h', Inr 1) \<and>
      h' ! 0 = test_baseline(''hospital_id'' \<mapsto> py 7) \<and>
      (h' ! 1) ''hospital_id'' = Some (py 7)"
proof -
  let ?b = "test_baseline(''hospital_id'' \<mapsto> py 7)"
  have "\<exists>h'. calculate_ai_impact_metrics_on default_ai_improvements 0 [?b] = (h', Inr 1)"
    by (simp add: calculate_ai_impact_metrics_on_def dict_copy_def sbind_def improve_item_def
        dict_getitem_def dict_setitem_def getitem_def default_ai_improvements_def
        test_baseline_def)
  then obtain h'
    where r: "calculate_ai_impact_metrics_on default_ai_improvements 0 [?b] = (h', Inr 1)" ..
  from baseline_not_mutated[OF _ r] r show ?thesis
    by (simp add: metric_keys_def)
qed
section \<open>The baseline metrics calculator\<close>

lemma sample_rows: "[0..<3] = [0, 1, 2]" "[0..<2] = [0, 1]" "[0..<1] = [0]"
  by (simp_all add: upt_rec)

lemma ebind_Inr_iff:
  "ebind m f = Inr v \<longleftrightarrow> (\<exists>x. m = Inr x \<and> f x = Inr v)"
  by (cases m) (simp_all add: ebind_def)

text \<open>The first cell of a column is a numpy scalar, so dividing it raises nothing.\<close>

lemma iloc0_is_np: "iloc0 s = Inr tc \<Longrightarrow> is_np tc"
  by (auto simp: iloc0_def split: series.splits list.splits)

lemma truediv_iloc0:
  "iloc0 s = Inr tc \<Longrightarrow> truediv tc x = Inr (Np (fdiv (fval_of tc) (fval_of x)))"
  by (rule truediv_np) (simp add: iloc0_is_np)

lemma truediv_constant:
  "truediv c (py 47000000) = Inr (coerce c (py 47000000) (fdiv (fval_of c) (Fin 47000000)))"
  by (simp add: truediv_def)

text \<open>The sum of an integer column wraps around in 64 bits.\<close>

lemma series_sum_wraps:
  "series_sum (Int64Series [9223372036854775807, 1]) = Np (Fin (- 9223372036854775808))"
  by (simp add: series_sum_def)

text \<open>The third block of the calculator: the cost metric.\<close>

lemma calculate_baseline_metrics_cost:
  assumes "calculate_baseline_metrics constants self_data loaded data = Inr baseline"
      and "tables_used self_data loaded data = d"
  shows "\<exists>b0. ebind
        (if \<not> df_empty (data_get d ''medical_expenditure'') then
           ebind (ebind (df_getitem (data_get d ''medical_expenditure'') ''total_expenditure'') iloc0) (\<lambda>total_cost.
           ebind (if \<not> df_empty (data_get d ''patient_volume'')
                  then ebind (df_getitem (data_get d ''patient_volume'') ''total_patients'') (\<lambda>ps. Inr (series_sum ps))
                  else Inr (py 47000000)) (\<lambda>total_patients.
           ebind (truediv total_cost total_patients) (\<lambda>v.
           Inr (b0(''cost_per_patient'' \<mapsto> v)))))
         else
           ebind (getitem constants ''total_healthcare_cost'') (\<lambda>c.
           ebind (truediv c (py 47000000)) (\<lambda>v.
           Inr (b0(''cost_per_patient'' \<mapsto> v))))) Inr = Inr baseline"
  using assms
  unfolding calculate_baseline_metrics_def Let_def ebind_Inr_iff
  by (elim exE conjE) (auto simp: ebind_Inr_iff)

text \<open>
  C5, as the code has it. The tables are those the method works on (its argument, or
  \<^verbatim>\<open>self.data\<close>, or what the loader returns). Whenever the calculator returns: with a
  medical-expenditure table and a patient-volume table, the cost per patient is the
  first row's total expenditure divided by the sum of the patients, as numpy divides
  (by a zero sum too, giving an infinity or \<^verbatim>\<open>nan\<close>); with a medical-expenditure table
  and no patient-volume table, it is the first row's total expenditure divided by the
  constant 47,000,000; without a medical-expenditure table, it is the constant
  \<^verbatim>\<open>total_healthcare_cost\<close> divided by 47,000,000.
\<close>

theorem cost_per_patient_sources:
  assumes "calculate_baseline_metrics constants self_data loaded data = Inr baseline"
      and "tables_used self_data loaded data = d"
  shows "(\<not> df_empty (data_get d ''medical_expenditure'') \<and>
          \<not> df_empty (data_get d ''patient_volume'') \<longrightarrow>
            (\<exists>expenditure total_cost patients.
               df_getitem (data_get d ''medical_expenditure'') ''total_expenditure'' =
                 Inr expenditure \<and>
               iloc0 expenditure = Inr total_cost \<and>
               df_getitem (data_get d ''patient_volume'') ''total_patients'' = Inr patients \<and>
               baseline ''cost_per_patient'' =
                 Some (Np (fdiv (fval_of total_cost) (fval_of (series_sum patients)))))) \<and>
         (\<not> df_empty (data_get d ''medical_expenditure'') \<and>
          df_empty (data_get d ''patient_volume'') \<longrightarrow>
            (\<exists>expenditure total_cost.
               df_getitem (data_get d ''medical_expenditure'') ''total_expenditure'' =
                 Inr expenditure \<and>
               iloc0 expenditure = Inr total_cost \<and>
               baseline ''cost_per_patient'' =
                 Some (Np (fdiv (fval_of total_cost) (Fin 47000000))))) \<and>
         (df_empty (data_get d ''medical_expenditure'') \<longrightarrow>
            (\<exists>c. constants ''total_healthcare_cost'' = Some c \<and>
                 baseline ''cost_per_patient'' =
                   Some (coerce c (py 47000000) (fdiv (fval_of c) (Fin 47000000)))))"
proof -
  let ?E = "data_get d ''medical_expenditure''" and ?P = "data_get d ''patient_volume''"
  from calculate_baseline_metrics_cost[OF assms] obtain b0 where
    b: "ebind
        (if \<not> df_empty ?E then
           ebind (ebind (df_getitem ?E ''total_expenditure'') iloc0) (\<lambda>total_cost.
           ebind (if \<not> df_empty ?P
                  then ebind (df_getitem ?P ''total_patients'') (\<lambda>ps. Inr (series_sum ps))
                  else Inr (py 47000000)) (\<lambda>total_patients.
           ebind (truediv total_cost total_patients) (\<lambda>v.
           Inr (b0(''cost_per_patient'' \<mapsto> v)))))
         else
           ebind (getitem constants ''total_healthcare_cost'') (\<lambda>c.
           ebind (truediv c (py 47000000)) (\<lambda>v.
           Inr (b0(''cost_per_patient'' \<mapsto> v))))) Inr = Inr baseline" ..
  have both: "\<exists>expenditure total_cost patients.
               df_getitem ?E ''total_expenditure'' = Inr expenditure \<and>
               iloc0 expenditure = Inr total_cost \<and>
               df_getitem ?P ''total_patients'' = Inr patients \<and>
               baseline ''cost_per_patient'' =
                 Some (Np (fdiv (fval_of total_cost) (fval_of (series_sum patients))))"
    if "\<not> df_empty ?E \<and> \<not> df_empty ?P"
  proof -
    from b that obtain expenditure total_cost patients v where
      e: "df_getitem ?E ''total_expenditure'' = Inr expenditure"
      and t: "iloc0 expenditure = Inr total_cost"
      and p: "df_getitem ?P ''total_patients'' = Inr patients"
      and v: "truediv total_cost (series_sum patients) = Inr v"
      and r: "baseline = b0(''cost_per_patient'' \<mapsto> v)"
      by (auto simp: ebind_Inr_iff)
    from v truediv_iloc0[OF t, of "series_sum patients"]
    have "v = Np (fdiv (fval_of total_cost) (fval_of (series_sum patients)))" by simp
    with e t p r show ?thesis by simp
  qed
  have table: "\<exists>expenditure total_cost.
               df_getitem ?E ''total_expenditure'' = Inr expenditure \<and>
               iloc0 expenditure = Inr total_cost \<and>
               baseline ''cost_per_patient'' =
                 Some (Np (fdiv (fval_of total_cost) (Fin 47000000)))"
    if "\<not> df_empty ?E \<and> df_empty ?P"
  proof -
    from b that obtain expenditure total_cost v where
      e: "df_getitem ?E ''total_expenditure'' = Inr expenditure"
      and t: "iloc0 expenditure = Inr total_cost"
      and v: "truediv total_cost (py 47000000) = Inr v"
      and r: "baseline = b0(''cost_per_patient'' \<mapsto> v)"
      by (auto simp: ebind_Inr_iff)
    from v truediv_iloc0[OF t, of "py 47000000"]
    have "v = Np (fdiv (fval_of total_cost) (Fin 47000000))" by simp
    with e t r show ?thesis by simp
  qed
  have fallback: "\<exists>c. constants ''total_healthcare_cost'' = Some c \<and>
                 baseline ''cost_per_patient'' =
                   Some (coerce c (py 47000000) (fdiv (fval_of c) (Fin 47000000)))"
    if "df_empty ?E"
  proof -
    from b that obtain c v where
      c: "getitem constants ''total_healthcare_cost'' = Inr c"
      and v: "truediv c (py 47000000) = Inr v"
      and r: "baseline = b0(''cost_per_patient'' \<mapsto> v)"
      by (auto simp: ebind_Inr_iff)
    from c have "constants ''total_healthcare_cost'' = Some c"
      by (auto simp: getitem_def split: option.splits)
    with v r show ?thesis by (simp add: truediv_constant)
  qed
  from both table fallback show ?thesis by blast
qed

text \<open>
  The theorem at the tables of the tests: both tables, handed over by the loader; an
  expenditure table alone; a patient table alone; and both tables with no patient
  reported, where the cost per patient is an infinity.
\<close>

theorem cost_per_patient_sources_witness:
  "(\<exists>b. calculate_baseline_metrics default_japan_constants Map.empty
         [''medical_expenditure'' \<mapsto> sample_expenditure_data,
          ''patient_volume'' \<mapsto> sample_patient_data] None = Inr b \<and>
        b ''cost_per_patient'' = Some (Np (Fin (45 * 10 ^ 12 / 3000000)))) \<and>
   (\<exists>b. calculate_baseline_metrics default_japan_constants Map.empty Map.empty
         (Some [''medical_expenditure'' \<mapsto> doubled_expenditure_data]) = Inr b \<and>
        b ''cost_per_patient'' = Some (Np (Fin (90 * 10 ^ 12 / 47000000)))) \<and>
   (\<exists>b. calculate_baseline_metrics default_japan_constants Map.empty Map.empty
         (Some [''patient_volume'' \<mapsto> sample_patient_data]) = Inr b \<and>
        b ''cost_per_patient'' = Some (py (45 * 10 ^ 12 / 47000000))) \<and>
   (\<exists>b. calculate_baseline_metrics default_japan_constants Map.empty Map.empty
         (Some [''medical_expenditure'' \<mapsto> sample_expenditure_data,
                ''patient_volume'' \<mapsto> no_patient_data]) = Inr b \<and>
        b ''cost_per_patient'' = Some (Np PInf))"
proof -
  let ?both = "[''medical_expenditure'' \<mapsto> sample_expenditure_data,
          ''patient_volume'' \<mapsto> sample_patient_data]"
  let ?one = "[''medical_expenditure'' \<mapsto> doubled_expenditure_data]"
  let ?patients = "[''patient_volume'' \<mapsto> sample_patient_data]"
  let ?none = "[''medical_expenditure'' \<mapsto> sample_expenditure_data,
                ''patient_volume'' \<mapsto> no_patient_data]"
  note defs = calculate_baseline_metrics_def tables_used_def data_get_def DataFrame_def
    df_empty_def df_getitem_def sample_expenditure_data_def sample_patient_data_def
    doubled_expenditure_data_def no_patient_data_def sample_rows ebind_def getitem_def
    default_japan_constants_def iloc0_def truediv_def coerce_def series_sum_def
  have "\<exists>b. calculate_baseline_metrics default_japan_constants Map.empty ?both None = Inr b"
    by (simp add: defs)
  then obtain b1 where
    b1: "calculate_baseline_metrics default_japan_constants Map.empty ?both None = Inr b1" ..
  have d1: "tables_used Map.empty ?both None = ?both"
    by (simp add: tables_used_def)
  from cost_per_patient_sources[OF b1 d1]
  have v1: "b1 ''cost_per_patient'' = Some (Np (Fin (45 * 10 ^ 12 / 3000000)))"
    by (auto simp: defs)
  have "\<exists>b. calculate_baseline_metrics default_japan_constants Map.empty Map.empty (Some ?one) = Inr b"
    by (simp add: defs)
  then obtain b2 where
    b2: "calculate_baseline_metrics default_japan_constants Map.empty Map.empty (Some ?one) = Inr b2" ..
  have d2: "tables_used Map.empty Map.empty (Some ?one) = ?one"
    by (simp add: tables_used_def)
  from cost_per_patient_sources[OF b2 d2]
  have v2: "b2 ''cost_per_patient'' = Some (Np (Fin (90 * 10 ^ 12 / 47000000)))"
    by (auto simp: defs)
  have "\<exists>b. calculate_baseline_metrics default_japan_constants Map.empty Map.empty (Some ?patients) = Inr b"
    by (simp add: defs)
  then obtain b3 where
    b3: "calculate_baseline_metrics default_japan_constants Map.empty Map.empty (Some ?patients) = Inr b3" ..
  have d3: "tables_used Map.empty Map.empty (Some ?patients) = ?patients"
    by (simp add: tables_used_def)
  from cost_per_patient_sources[OF b3 d3]
  have v3: "b3 ''cost_per_patient'' = Some (py (45 * 10 ^ 12 / 47000000))"
    by (auto simp: defs)
  have "\<exists>b. calculate_baseline_metrics default_japan_constants Map.empty Map.empty (Some ?none) = Inr b"
    by (simp add: defs)
  then obtain b4 where
    b4: "calculate_baseline_metrics default_japan_constants Map.empty Map.empty (Some ?none) = Inr b4" ..
  have d4: "tables_used Map.empty Map.empty (Some ?none) = ?none"
    by (simp add: tables_used_def)
  from cost_per_patient_sources[OF b4 d4]
  have v4: "b4 ''cost_per_patient'' = Some (Np PInf)"
    by (auto simp: defs)
  from b1 v1 b2 v2 b3 v3 b4 v4 show ?thesis by blast
qed

text \<open>
  C5 as stated fails: with a medical-expenditure table whose first row holds 90 trillion
  and no patient-volume table, the two tables are not both available, and the cost per
  patient is not the fallback ratio \<^verbatim>\<open>total_healthcare_cost / 47000000\<close> of the
  constants (45 trillion) but the table's 90 trillion over 47,000,000.
\<close>

theorem cost_per_patient_mixed_fallback:
  "\<exists>b v. calculate_baseline_metrics default_japan_constants Map.empty Map.empty
         (Some [''medical_expenditure'' \<mapsto> doubled_expenditure_data]) = Inr b \<and>
       df_empty (data_get [''medical_expenditure'' \<mapsto> doubled_expenditure_data] ''patient_volume'') \<and>
       default_japan_constants ''total_healthcare_cost'' = Some (py (45 * 10 ^ 12)) \<and>
       b ''cost_per_patient'' = Some v \<and>
       fval_of v = Fin (90 * 10 ^ 12 / 47000000) \<and>
       fval_of v \<noteq> Fin (45 * 10 ^ 12 / 47000000)"
  by (simp add: calculate_baseline_metrics_def tables_used_def data_get_def DataFrame_def
      df_empty_def df_getitem_def doubled_expenditure_data_def sample_rows
      ebind_def getitem_def default_japan_constants_def iloc0_def truediv_def coerce_def)

section \<open>The savings decomposer\<close>

text \<open>The decomposer as a sequence of lookups and one division.\<close>

lemma calculate_cost_savings_eq:
  "calculate_cost_savings c b a =
     ebind (getitem c ''average_hourly_wage'') (\<lambda>hw.
     ebind (getitem b ''admin_hours_per_patient'') (\<lambda>ba.
     ebind (getitem a ''admin_hours_per_patient'') (\<lambda>aa.
     ebind (getitem b ''billing_error_rate'') (\<lambda>be.
     ebind (getitem a ''billing_error_rate'') (\<lambda>ae.
     ebind (getitem b ''cost_per_patient'') (\<lambda>bc.
     ebind (getitem c ''error_cost_multiplier'') (\<lambda>m.
     ebind (getitem a ''patients_per_worker'') (\<lambda>ap.
     ebind (getitem b ''patients_per_worker'') (\<lambda>bp.
     ebind (truediv ap bp) (\<lambda>ratio.
     ebind (getitem b ''processing_time_hours'') (\<lambda>bt.
     ebind (getitem a ''processing_time_hours'') (\<lambda>apt.
     Inr [''admin_labor_savings'' \<mapsto> nmul (nmul (nsub ba aa) (py 47000000)) hw,
          ''error_cost_savings'' \<mapsto>
             nmul (nmul (nsub be ae) (nmul (nmul bc be) m)) (py 47000000),
          ''additional_revenue'' \<mapsto>
             nmul (nmul (py 47000000) (nsub ratio (py 1))) (nmul bc (py 0.7)),
          ''processing_efficiency_savings'' \<mapsto>
             nmul (nmul (nmul (nsub bt apt) (py 47000000)) (py 0.1)) hw,
          ''total_annual_savings'' \<mapsto> py_sum
            [nmul (nmul (nsub ba aa) (py 47000000)) hw,
             nmul (nmul (nsub be ae) (nmul (nmul bc be) m)) (py 47000000),
             nmul (nmul (py 47000000) (nsub ratio (py 1))) (nmul bc (py 0.7)),
             nmul (nmul (nmul (nsub bt apt) (py 47000000)) (py 0.1)) hw]]))))))))))))"
  by (simp add: calculate_cost_savings_def ebind_def getitem_def Let_def
      split: option.splits sum.splits)

lemma calculate_cost_savings_Inr:
  assumes "calculate_cost_savings c b a = Inr s"
  shows "\<exists>hw ba aa be ae bc m ap bp bt apt ratio.
     c ''average_hourly_wage'' = Some hw \<and> c ''error_cost_multiplier'' = Some m \<and>
     b ''admin_hours_per_patient'' = Some ba \<and> a ''admin_hours_per_patient'' = Some aa \<and>
     b ''billing_error_rate'' = Some be \<and> a ''billing_error_rate'' = Some ae \<and>
     b ''cost_per_patient'' = Some bc \<and>
     a ''patients_per_worker'' = Some ap \<and> b ''patients_per_worker'' = Some bp \<and>
     truediv ap bp = Inr ratio \<and>
     b ''processing_time_hours'' = Some bt \<and> a ''processing_time_hours'' = Some apt \<and>
     s = [''admin_labor_savings'' \<mapsto> nmul (nmul (nsub ba aa) (py 47000000)) hw,
          ''error_cost_savings'' \<mapsto>
             nmul (nmul (nsub be ae) (nmul (nmul bc be) m)) (py 47000000),
          ''additional_revenue'' \<mapsto>
             nmul (nmul (py 47000000) (nsub ratio (py 1))) (nmul bc (py 0.7)),
          ''processing_efficiency_savings'' \<mapsto>
             nmul (nmul (nmul (nsub bt apt) (py 47000000)) (py 0.1)) hw,
          ''total_annual_savings'' \<mapsto> py_sum
            [nmul (nmul (nsub ba aa) (py 47000000)) hw,
             nmul (nmul (nsub be ae) (nmul (nmul bc be) m)) (py 47000000),
             nmul (nmul (py 47000000) (nsub ratio (py 1))) (nmul bc (py 0.7)),
             nmul (nmul (nmul (nsub bt apt) (py 47000000)) (py 0.1)) hw]]"
  using assms unfolding calculate_cost_savings_eq
  by (auto simp: ebind_def getitem_def split: option.splits sum.splits)

lemma calculate_cost_savings_Inl:
  assumes "calculate_cost_savings c b a = Inl e"
  shows "(\<exists>k. e = KeyError k) \<or>
         (e = ZeroDivisionError \<and>
          (\<exists>ap bp. a ''patients_per_worker'' = Some ap \<and> b ''patients_per_worker'' = Some bp \<and>
             truediv ap bp = Inl ZeroDivisionError))"
  using assms unfolding calculate_cost_savings_eq
  by (auto simp: ebind_def getitem_def split: option.splits sum.splits dest: truediv_Inl)

lemma calculate_cost_savings_ZeroDivisionError:
  assumes "b ''patients_per_worker'' = Some z" "fval_of z = Fin 0" "\<not> is_np z"
   and "a ''patients_per_worker'' = Some ap" "\<not> is_np ap"
   and "c ''average_hourly_wage'' \<noteq> None" "c ''error_cost_multiplier'' \<noteq> None"
     "b ''admin_hours_per_patient'' \<noteq> None" "a ''admin_hours_per_patient'' \<noteq> None"
     "b ''billing_error_rate'' \<noteq> None" "a ''billing_error_rate'' \<noteq> None"
     "b ''cost_per_patient'' \<noteq> None"
  shows "calculate_cost_savings c b a = Inl ZeroDivisionError"
  using assms unfolding calculate_cost_savings_eq
  by (auto simp: ebind_def getitem_def truediv_py_zero split: option.splits)

lemma calculate_cost_savings_returns:
  assumes "b ''patients_per_worker'' = Some z" "a ''patients_per_worker'' = Some ap"
      "is_np z \<or> is_np ap"
   and "c ''average_hourly_wage'' \<noteq> None" "c ''error_cost_multiplier'' \<noteq> None"
     "b ''admin_hours_per_patient'' \<noteq> None" "a ''admin_hours_per_patient'' \<noteq> None"
     "b ''billing_error_rate'' \<noteq> None" "a ''billing_error_rate'' \<noteq> None"
     "b ''cost_per_patient'' \<noteq> None"
     "b ''processing_time_hours'' \<noteq> None" "a ''processing_time_hours'' \<noteq> None"
  shows "\<exists>s. calculate_cost_savings c b a = Inr s"
proof -
  from assms(4-12) obtain hw m ba aa be ae bc bt apt where
    k: "c ''average_hourly_wage'' = Some hw" "c ''error_cost_multiplier'' = Some m"
       "b ''admin_hours_per_patient'' = Some ba" "a ''admin_hours_per_patient'' = Some aa"
       "b ''billing_error_rate'' = Some be" "a ''billing_error_rate'' = Some ae"
       "b ''cost_per_patient'' = Some bc"
       "b ''processing_time_hours'' = Some bt" "a ''processing_time_hours'' = Some apt"
    by blast
  from assms(3) have d: "truediv ap z = Inr (Np (fdiv (fval_of ap) (fval_of z)))"
    by (intro truediv_np) auto
  show ?thesis unfolding calculate_cost_savings_eq
    by (simp add: ebind_def getitem_def k assms(1,2) d)
qed

lemma calculate_cost_savings_not_finite:
  assumes "calculate_cost_savings c b a = Inr s"
      and "b ''patients_per_worker'' = Some z" "fval_of z = Fin 0"
  shows "\<exists>x t. s ''additional_revenue'' = Some x \<and> \<not> finite_value (fval_of x) \<and>
               s ''total_annual_savings'' = Some t \<and> \<not> finite_value (fval_of t)"
proof -
  from calculate_cost_savings_Inr[OF assms(1)] assms(2)
  obtain s1 s2 s4 ap ratio bc where
    d: "truediv ap z = Inr ratio" and
    s: "s = [''admin_labor_savings'' \<mapsto> s1, ''error_cost_savings'' \<mapsto> s2,
             ''additional_revenue'' \<mapsto>
               nmul (nmul (py 47000000) (nsub ratio (py 1))) (nmul bc (py 0.7)),
             ''processing_efficiency_savings'' \<mapsto> s4,
             ''total_annual_savings'' \<mapsto> py_sum
               [s1, s2, nmul (nmul (py 47000000) (nsub ratio (py 1))) (nmul bc (py 0.7)), s4]]"
    by auto
  let ?x = "nmul (nmul (py 47000000) (nsub ratio (py 1))) (nmul bc (py 0.7))"
  from d assms(3) have "fval_of ratio = fdiv (fval_of ap) (Fin 0)"
    by (auto simp: truediv_def fval_of_coerce split: if_splits)
  then have r: "\<not> finite_value (fval_of ratio)" by (simp add: fdiv_zero_not_finite)
  have x: "\<not> finite_value (fval_of ?x)"
  proof
    assume "finite_value (fval_of ?x)"
    then have "finite_value (fmul (fmul (Fin 47000000) (fsub (fval_of ratio) (Fin 1)))
                               (fmul (fval_of bc) (Fin 0.7)))"
      by (simp add: fval_of_ops)
    then have "finite_value (fmul (Fin 47000000) (fsub (fval_of ratio) (Fin 1)))"
      by (blast dest: fmul_finite)
    then have "finite_value (fsub (fval_of ratio) (Fin 1))"
      by (blast dest: fmul_finite)
    then have "finite_value (fval_of ratio)"
      by (blast dest: fsub_finite)
    with r show False ..
  qed
  have t: "\<not> finite_value (fval_of (py_sum [s1, s2, ?x, s4]))"
  proof
    assume "finite_value (fval_of (py_sum [s1, s2, ?x, s4]))"
    then have "finite_value (fadd (fadd (fadd (fadd (Fin 0) (fval_of s1)) (fval_of s2))
                   (fval_of ?x)) (fval_of s4))"
      by (simp only: py_sum_def foldl.simps fval_of_ops fval_of.simps)
    then have "finite_value (fadd (fadd (fadd (Fin 0) (fval_of s1)) (fval_of s2)) (fval_of ?x))"
      by (blast dest: fadd_finite)
    then have "finite_value (fval_of ?x)"
      by (blast dest: fadd_finite)
    with x show False ..
  qed
  from s x t show ?thesis by simp
qed

text \<open>
  C1, as the code has it. With \<^verbatim>\<open>baseline['patients_per_worker']\<close> zero the decomposer
  never fails with a \<open>DataError\<close>; what it does depends on the kind of the two
  throughput metrics it divides. When both are Python numbers it returns no savings: it
  raises Python's \<open>ZeroDivisionError\<close> from the unguarded division (or the \<open>KeyError\<close>
  of a lookup that comes before it), and when the items read before the division are
  present the exception is \<open>ZeroDivisionError\<close>. When either is a numpy scalar, as the
  metrics computed from tables are, no division error is raised: the call returns
  whenever the items it reads are present, and in the breakdown it returns
  \<^verbatim>\<open>additional_revenue\<close> and \<^verbatim>\<open>total_annual_savings\<close> are not finite (\<^verbatim>\<open>nan\<close> or an
  infinity).
\<close>

theorem zero_patients_per_worker_raises:
  assumes "baseline ''patients_per_worker'' = Some z" "fval_of z = Fin 0"
      and "ai_metrics ''patients_per_worker'' = Some ap"
  shows "calculate_cost_savings constants baseline ai_metrics \<noteq> Inl DataError \<and>
         (\<not> is_np z \<and> \<not> is_np ap \<longrightarrow>
            ((\<exists>k. calculate_cost_savings constants baseline ai_metrics = Inl (KeyError k)) \<or>
             calculate_cost_savings constants baseline ai_metrics = Inl ZeroDivisionError) \<and>
            (constants ''average_hourly_wage'' \<noteq> None \<and>
             constants ''error_cost_multiplier'' \<noteq> None \<and>
             baseline ''admin_hours_per_patient'' \<noteq> None \<and>
             ai_metrics ''admin_hours_per_patient'' \<noteq> None \<and>
             baseline ''billing_error_rate'' \<noteq> None \<and>
             ai_metrics ''billing_error_rate'' \<noteq> None \<and>
             baseline ''cost_per_patient'' \<noteq> None
             \<longrightarrow> calculate_cost_savings constants baseline ai_metrics = Inl ZeroDivisionError)) \<and>
         (is_np z \<or> is_np ap \<longrightarrow>
            calculate_cost_savings constants baseline ai_metrics \<noteq> Inl ZeroDivisionError \<and>
            (constants ''average_hourly_wage'' \<noteq> None \<and>
             constants ''error_cost_multiplier'' \<noteq> None \<and>
             baseline ''admin_hours_per_patient'' \<noteq> None \<and>
             ai_metrics ''admin_hours_per_patient'' \<noteq> None \<and>
             baseline ''billing_error_rate'' \<noteq> None \<and>
             ai_metrics ''billing_error_rate'' \<noteq> None \<and>
             baseline ''cost_per_patient'' \<noteq> None \<and>
             baseline ''processing_time_hours'' \<noteq> None \<and>
             ai_metrics ''processing_time_hours'' \<noteq> None
             \<longrightarrow> (\<exists>s. calculate_cost_savings constants baseline ai_metrics = Inr s))) \<and>
         (\<forall>s. calculate_cost_savings constants baseline ai_metrics = Inr s \<longrightarrow>
            (is_np z \<or> is_np ap) \<and>
            (\<exists>x t. s ''additional_revenue'' = Some x \<and> \<not> finite_value (fval_of x) \<and>
                   s ''total_annual_savings'' = Some t \<and> \<not> finite_value (fval_of t)))"
proof -
  let ?r = "calculate_cost_savings constants baseline ai_metrics"
  have no_data_error: "?r \<noteq> Inl DataError"
    using calculate_cost_savings_Inl[of constants baseline ai_metrics DataError] by auto
  have py_raises: "(\<exists>k. ?r = Inl (KeyError k)) \<or> ?r = Inl ZeroDivisionError"
    if "\<not> is_np z" "\<not> is_np ap"
  proof (cases ?r)
    case (Inl e)
    with calculate_cost_savings_Inl[of constants baseline ai_metrics e] show ?thesis by auto
  next
    case (Inr s)
    from calculate_cost_savings_Inr[OF this] assms that show ?thesis
      by (auto simp: truediv_py_zero)
  qed
  have py_zde: "?r = Inl ZeroDivisionError"
    if "\<not> is_np z" "\<not> is_np ap"
       "constants ''average_hourly_wage'' \<noteq> None \<and>
        constants ''error_cost_multiplier'' \<noteq> None \<and>
        baseline ''admin_hours_per_patient'' \<noteq> None \<and>
        ai_metrics ''admin_hours_per_patient'' \<noteq> None \<and>
        baseline ''billing_error_rate'' \<noteq> None \<and>
        ai_metrics ''billing_error_rate'' \<noteq> None \<and>
        baseline ''cost_per_patient'' \<noteq> None"
    using calculate_cost_savings_ZeroDivisionError[where b = baseline and c = constants
        and a = ai_metrics, OF assms(1,2) that(1) assms(3) that(2)] that(3)
    by blast
  have np_no_zde: "?r \<noteq> Inl ZeroDivisionError" if "is_np z \<or> is_np ap"
  proof
    assume "?r = Inl ZeroDivisionError"
    from calculate_cost_savings_Inl[OF this] assms(1,3)
    have "truediv ap z = Inl ZeroDivisionError" by auto
    with truediv_np[of ap z] that show False by auto
  qed
  have np_returns: "\<exists>s. ?r = Inr s"
    if "is_np z \<or> is_np ap"
       "constants ''average_hourly_wage'' \<noteq> None \<and>
        constants ''error_cost_multiplier'' \<noteq> None \<and>
        baseline ''admin_hours_per_patient'' \<noteq> None \<and>
        ai_metrics ''admin_hours_per_patient'' \<noteq> None \<and>
        baseline ''billing_error_rate'' \<noteq> None \<and>
        ai_metrics ''billing_error_rate'' \<noteq> None \<and>
        baseline ''cost_per_patient'' \<noteq> None \<and>
        baseline ''processing_time_hours'' \<noteq> None \<and>
        ai_metrics ''processing_time_hours'' \<noteq> None"
    using calculate_cost_savings_returns[where b = baseline and c = constants
        and a = ai_metrics, OF assms(1) assms(3) that(1)] that(2)
    by blast
  have returned: "(is_np z \<or> is_np ap) \<and>
      (\<exists>x t. s ''additional_revenue'' = Some x \<and> \<not> finite_value (fval_of x) \<and>
             s ''total_annual_savings'' = Some t \<and> \<not> finite_value (fval_of t))"
    if "?r = Inr s" for s
  proof -
    from calculate_cost_savings_Inr[OF that] assms
    have "\<exists>ratio. truediv ap z = Inr ratio" by auto
    then have "is_np z \<or> is_np ap" using assms(2) by (auto simp: truediv_def split: if_splits)
    with calculate_cost_savings_not_finite[where b = baseline and c = constants
        and a = ai_metrics, OF that assms(1,2)]
    show ?thesis by blast
  qed
  from no_data_error py_raises py_zde np_no_zde np_returns returned
  show ?thesis by blast
qed

text \<open>
  The theorem at the test's metrics with the throughput zero: as Python numbers, where
  the call raises, and as numpy scalars, where it returns.
\<close>

theorem zero_patients_per_worker_raises_witness:
  "(test_baseline(''patients_per_worker'' \<mapsto> py 0)) ''patients_per_worker'' = Some (py 0) \<and>
   fval_of (py 0) = Fin 0 \<and> fval_of (Np (Fin 0)) = Fin 0 \<and>
   (test_ai_metrics(''patients_per_worker'' \<mapsto> py 0)) ''patients_per_worker'' = Some (py 0) \<and>
   calculate_cost_savings default_japan_constants
     (test_baseline(''patients_per_worker'' \<mapsto> py 0))
     (test_ai_metrics(''patients_per_worker'' \<mapsto> py 0)) = Inl ZeroDivisionError \<and>
   (\<exists>s x. calculate_cost_savings default_japan_constants
     (test_baseline(''patients_per_worker'' \<mapsto> Np (Fin 0)))
     (test_ai_metrics(''patients_per_worker'' \<mapsto> Np (Fin 0))) = Inr s \<and>
     s ''additional_revenue'' = Some x \<and> \<not> finite_value (fval_of x))"
proof -
  have a: "calculate_cost_savings default_japan_constants
     (test_baseline(''patients_per_worker'' \<mapsto> py 0))
     (test_ai_metrics(''patients_per_worker'' \<mapsto> py 0)) = Inl ZeroDivisionError"
    using zero_patients_per_worker_raises[of "test_baseline(''patients_per_worker'' \<mapsto> py 0)"
      "py 0" "test_ai_metrics(''patients_per_worker'' \<mapsto> py 0)" "py 0"
      default_japan_constants]
    by (simp add: test_baseline_def test_ai_metrics_def default_japan_constants_def)
  have b: "\<exists>s x. calculate_cost_savings default_japan_constants
     (test_baseline(''patients_per_worker'' \<mapsto> Np (Fin 0)))
     (test_ai_metrics(''patients_per_worker'' \<mapsto> Np (Fin 0))) = Inr s \<and>
     s ''additional_revenue'' = Some x \<and> \<not> finite_value (fval_of x)"
    using zero_patients_per_worker_raises[of
      "test_baseline(''patients_per_worker'' \<mapsto> Np (Fin 0))"
      "Np (Fin 0)" "test_ai_metrics(''patients_per_worker'' \<mapsto> Np (Fin 0))" "Np (Fin 0)"
      default_japan_constants]
    by (simp add: test_baseline_def test_ai_metrics_def default_japan_constants_def) blast
  from a b show ?thesis by simp
qed

text \<open>
  C1 as stated fails, in both ways. From tables in which two regions report workers and
  no patient, the calculator derives a throughput of zero, a numpy scalar; the
  transformer keeps it zero, and the decomposer returns a breakdown whose additional
  revenue is \<^verbatim>\<open>nan\<close>: no error at all. And for the test's baseline with the Python
  number \<open>0\<close> as throughput the decomposer raises \<open>ZeroDivisionError\<close>, which is no
  \<open>DataError\<close>.
\<close>

theorem zero_patients_per_worker_no_DataError:
  "(\<exists>b a s.
      calculate_baseline_metrics default_japan_constants Map.empty Map.empty
        (Some [''workforce'' \<mapsto> idle_workforce_data,
               ''patient_volume'' \<mapsto> no_patient_data]) = Inr b \<and>
      b ''patients_per_worker'' = Some (Np (Fin 0)) \<and>
      calculate_ai_impact_metrics default_ai_improvements b = Inr a \<and>
      calculate_cost_savings default_japan_constants b a = Inr s \<and>
      s ''additional_revenue'' = Some (Np NaN) \<and>
      s ''total_annual_savings'' = Some (Np NaN)) \<and>
   calculate_cost_savings default_japan_constants
     (test_baseline(''patients_per_worker'' \<mapsto> py 0))
     (test_ai_metrics(''patients_per_worker'' \<mapsto> py 0)) = Inl ZeroDivisionError \<and>
   calculate_cost_savings default_japan_constants
     (test_baseline(''patients_per_worker'' \<mapsto> py 0))
     (test_ai_metrics(''patients_per_worker'' \<mapsto> py 0)) \<noteq> Inl DataError"
proof -
  let ?b = "[''admin_hours_per_patient'' \<mapsto> py 2.0,
             ''processing_time_hours'' \<mapsto> py 4.0,
             ''billing_error_rate'' \<mapsto> py 0.025,
             ''patients_per_worker'' \<mapsto> Np (Fin 0),
             ''cost_per_patient'' \<mapsto> py (45 * 10 ^ 12 / 47000000)]"
  have b: "calculate_baseline_metrics default_japan_constants Map.empty Map.empty
        (Some [''workforce'' \<mapsto> idle_workforce_data,
               ''patient_volume'' \<mapsto> no_patient_data]) = Inr ?b"
    by (simp add: calculate_baseline_metrics_def tables_used_def data_get_def DataFrame_def
        df_empty_def df_getitem_def idle_workforce_data_def no_patient_data_def sample_rows
        ebind_def getitem_def default_japan_constants_def truediv_def coerce_def
        series_sum_def ngt_def)
  have "\<exists>a. calculate_ai_impact_metrics default_ai_improvements ?b = Inr a \<and>
      a ''patients_per_worker'' = Some (Np (Fin 0)) \<and>
      a ''admin_hours_per_patient'' \<noteq> None \<and> a ''billing_error_rate'' \<noteq> None \<and>
      a ''processing_time_hours'' \<noteq> None"
    by (simp add: calculate_ai_impact_metrics_eq ebind_def getitem_def
        default_ai_improvements_def nmul_def nadd_def coerce_def)
  then obtain a where a: "calculate_ai_impact_metrics default_ai_improvements ?b = Inr a"
    and ap: "a ''patients_per_worker'' = Some (Np (Fin 0))"
    and ak: "a ''admin_hours_per_patient'' \<noteq> None" "a ''billing_error_rate'' \<noteq> None"
      "a ''processing_time_hours'' \<noteq> None"
    by blast
  from ak obtain aa ae apt where av: "a ''admin_hours_per_patient'' = Some aa"
    "a ''billing_error_rate'' = Some ae" "a ''processing_time_hours'' = Some apt" by blast
  have "\<exists>s. calculate_cost_savings default_japan_constants ?b a = Inr s \<and>
      s ''additional_revenue'' = Some (Np NaN) \<and> s ''total_annual_savings'' = Some (Np NaN)"
    by (simp add: calculate_cost_savings_eq ebind_def getitem_def default_japan_constants_def
        ap av truediv_def py_sum_def nmul_def nadd_def nsub_def fsub_def coerce_def
        fadd_NaN)
  then obtain s where s: "calculate_cost_savings default_japan_constants ?b a = Inr s"
    "s ''additional_revenue'' = Some (Np NaN)" "s ''total_annual_savings'' = Some (Np NaN)"
    by blast
  have bp: "?b ''patients_per_worker'' = Some (Np (Fin 0))" by simp
  from b bp a s have pipeline: "\<exists>b a s.
      calculate_baseline_metrics default_japan_constants Map.empty Map.empty
        (Some [''workforce'' \<mapsto> idle_workforce_data,
               ''patient_volume'' \<mapsto> no_patient_data]) = Inr b \<and>
      b ''patients_per_worker'' = Some (Np (Fin 0)) \<and>
      calculate_ai_impact_metrics default_ai_improvements b = Inr a \<and>
      calculate_cost_savings default_japan_constants b a = Inr s \<and>
      s ''additional_revenue'' = Some (Np NaN) \<and>
      s ''total_annual_savings'' = Some (Np NaN)"
    by blast
  have "calculate_cost_savings default_japan_constants
     (test_baseline(''patients_per_worker'' \<mapsto> py 0))
     (test_ai_metrics(''patients_per_worker'' \<mapsto> py 0)) = Inl ZeroDivisionError"
    by (simp add: calculate_cost_savings_eq ebind_def getitem_def default_japan_constants_def
        test_baseline_def test_ai_metrics_def truediv_def)
  with pipeline show ?thesis by simp
qed

text \<open>
  C9. Whenever the decomposer returns, the returned mapping holds the four categories
  and \<^verbatim>\<open>total_annual_savings\<close> is their sum, as \<^verbatim>\<open>sum\<close> adds them: from \<open>0\<close>, left to
  right.
\<close>

theorem total_is_sum_of_categories:
  assumes "calculate_cost_savings constants baseline ai_metrics = Inr s"
  shows "\<exists>s1 s2 s3 s4.
           s ''admin_labor_savings'' = Some s1 \<and> s ''error_cost_savings'' = Some s2 \<and>
           s ''additional_revenue'' = Some s3 \<and>
           s ''processing_efficiency_savings'' = Some s4 \<and>
           s ''total_annual_savings'' = Some (py_sum [s1, s2, s3, s4]) \<and>
           py_sum [s1, s2, s3, s4] = nadd (nadd (nadd s1 s2) s3) s4 \<and>
           dom s = {''admin_labor_savings'', ''error_cost_savings'', ''additional_revenue'',
                    ''processing_efficiency_savings'', ''total_annual_savings''}"
proof -
  from calculate_cost_savings_Inr[OF assms] obtain s1 s2 s3 s4 where
    "s = [''admin_labor_savings'' \<mapsto> s1, ''error_cost_savings'' \<mapsto> s2,
          ''additional_revenue'' \<mapsto> s3, ''processing_efficiency_savings'' \<mapsto> s4,
          ''total_annual_savings'' \<mapsto> py_sum [s1, s2, s3, s4]]"
    by blast
  then show ?thesis
    by (auto simp: py_sum_def nadd_zero_left split: if_splits)
qed

theorem total_is_sum_of_categories_witness:
  "\<exists>s. calculate_cost_savings default_japan_constants test_baseline test_ai_metrics = Inr s \<and>
     (\<exists>s1 s2 s3 s4.
           s ''admin_labor_savings'' = Some s1 \<and> s ''error_cost_savings'' = Some s2 \<and>
           s ''additional_revenue'' = Some s3 \<and>
           s ''processing_efficiency_savings'' = Some s4 \<and>
           s ''total_annual_savings'' = Some (nadd (nadd (nadd s1 s2) s3) s4))"
proof -
  have "\<exists>s. calculate_cost_savings default_japan_constants test_baseline test_ai_metrics = Inr s"
    by (simp add: calculate_cost_savings_eq ebind_def getitem_def truediv_def
        test_baseline_def test_ai_metrics_def default_japan_constants_def)
  then obtain s
    where r: "calculate_cost_savings default_japan_constants test_baseline test_ai_metrics = Inr s" ..
  from total_is_sum_of_categories[OF r] r show ?thesis by metis
qed

section \<open>The range of the growth factor\<close>

text \<open>
  Bounds on powers, scaled by \<open>2\<^sup>4\<^sup>0\<close>: from bounds on \<open>b\<^sup>n\<close> and on \<open>b\<^sup>k\<close> a bound on
  \<open>b\<^sup>n\<^sup>+\<^sup>k\<close>, with the product of the mantissas rounded outwards.
\<close>

lemma power_upper_mult:
  fixes b M N P :: real
  assumes "b ^ n * 2 ^ 40 \<le> M * 2 ^ E" "b ^ k * 2 ^ 40 \<le> N * 2 ^ F" "0 \<le> b"
      and "M * N \<le> P * 2 ^ (40 + t)"
  shows "b ^ (n + k) * 2 ^ 40 \<le> P * 2 ^ (E + F + t)"
proof -
  have n0: "0 \<le> b ^ n * 2 ^ 40" and k0: "0 \<le> b ^ k * 2 ^ 40" using assms(3) by simp_all
  from n0 assms(1) have m0: "0 \<le> M * 2 ^ E" by linarith
  have "(b ^ n * 2 ^ 40) * (b ^ k * 2 ^ 40) \<le> (M * 2 ^ E) * (N * 2 ^ F)"
    by (rule mult_mono) (use assms(1,2) m0 k0 in auto)
  also have "\<dots> = (M * N) * 2 ^ (E + F)" by (simp add: power_add)
  also have "\<dots> \<le> (P * 2 ^ (40 + t)) * 2 ^ (E + F)"
    by (rule mult_right_mono) (use assms(4) in auto)
  also have "\<dots> = (P * 2 ^ (E + F + t)) * 2 ^ 40" by (simp add: power_add)
  finally have "(b ^ (n + k) * 2 ^ 40) * 2 ^ 40 \<le> (P * 2 ^ (E + F + t)) * 2 ^ 40"
    by (simp add: power_add mult_ac)
  then show ?thesis by (rule mult_right_le_imp_le) simp
qed

lemma power_lower_mult:
  fixes b M N P :: real
  assumes "M * 2 ^ E \<le> b ^ n * 2 ^ 40" "N * 2 ^ F \<le> b ^ k * 2 ^ 40" "0 \<le> M" "0 \<le> N"
      and "P * 2 ^ (40 + t) \<le> M * N"
  shows "P * 2 ^ (E + F + t) \<le> b ^ (n + k) * 2 ^ 40"
proof -
  have "(P * 2 ^ (E + F + t)) * 2 ^ 40 = (P * 2 ^ (40 + t)) * 2 ^ (E + F)"
    by (simp add: power_add)
  also have "\<dots> \<le> (M * N) * 2 ^ (E + F)"
    by (rule mult_right_mono) (use assms(5) in auto)
  also have "\<dots> = (M * 2 ^ E) * (N * 2 ^ F)" by (simp add: power_add)
  also have "\<dots> \<le> (b ^ n * 2 ^ 40) * (b ^ k * 2 ^ 40)"
  proof (rule mult_mono)
    have m0: "0 \<le> M * 2 ^ E" using assms(3) by simp
    show "M * 2 ^ E \<le> b ^ n * 2 ^ 40" by fact
    show "N * 2 ^ F \<le> b ^ k * 2 ^ 40" by fact
    show "0 \<le> b ^ n * 2 ^ 40" using m0 assms(1) by linarith
    show "0 \<le> N * 2 ^ F" using assms(4) by simp
  qed
  finally have "(P * 2 ^ (E + F + t)) * 2 ^ 40 \<le> (b ^ (n + k) * 2 ^ 40) * 2 ^ 40"
    by (simp add: power_add mult_ac)
  then show ?thesis by (rule mult_right_le_imp_le) simp
qed

text \<open>
  Upper bounds on \<open>b\<^sup>n\<close> for \<open>n = 2, 4, \<dots>, 8192\<close> and then \<open>n = 14547\<close>, for every \<open>b\<close>
  between \<open>0\<close> and the bound of the first line.
\<close>

lemma growth_upper_2:
  fixes b :: real
  assumes "0 \<le> b" "b ^ 1 * 2 ^ 40 \<le> 1154487209165 * 2 ^ 0"
  shows "b ^ 2 * 2 ^ 40 \<le> 1212211569624 * 2 ^ 0"
proof -
  have e: "(1::nat) + 1 = 2" "(0::nat) + 0 + 0 = 0" by simp_all
  have "b ^ (1 + 1) * 2 ^ 40 \<le> 1212211569624 * 2 ^ (0 + 0 + 0)"
    by (rule power_upper_mult[OF assms(2) assms(2) assms(1)]) simp
  then show ?thesis unfolding e .
qed

lemma growth_upper_4:
  fixes b :: real
  assumes "0 \<le> b" "b ^ 1 * 2 ^ 40 \<le> 1154487209165 * 2 ^ 0"
  shows "b ^ 4 * 2 ^ 40 \<le> 1336463255512 * 2 ^ 0"
proof -
  have e: "(2::nat) + 2 = 4" "(0::nat) + 0 + 0 = 0" by simp_all
  have "b ^ (2 + 2) * 2 ^ 40 \<le> 1336463255512 * 2 ^ (0 + 0 + 0)"
    by (rule power_upper_mult[OF growth_upper_2[OF assms] growth_upper_2[OF assms] assms(1)]) simp
  then show ?thesis unfolding e .
qed

lemma growth_upper_8:
  fixes b :: real
  assumes "0 \<le> b" "b ^ 1 * 2 ^ 40 \<le> 1154487209165 * 2 ^ 0"
  shows "b ^ 8 * 2 ^ 40 \<le> 1624479439974 * 2 ^ 0"
proof -
  have e: "(4::nat) + 4 = 8" "(0::nat) + 0 + 0 = 0" by simp_all
  have "b ^ (4 + 4) * 2 ^ 40 \<le> 1624479439974 * 2 ^ (0 + 0 + 0)"
    by (rule power_upper_mult[OF growth_upper_4[OF assms] growth_upper_4[OF assms] assms(1)]) simp
  then show ?thesis unfolding e .
qed

lemma growth_upper_16:
  fixes b :: real
  assumes "0 \<le> b" "b ^ 1 * 2 ^ 40 \<le> 1154487209165 * 2 ^ 0"
  shows "b ^ 16 * 2 ^ 40 \<le> 1200047995962 * 2 ^ 1"
proof -
  have e: "(8::nat) + 8 = 16" "(0::nat) + 0 + 1 = 1" by simp_all
  have "b ^ (8 + 8) * 2 ^ 40 \<le> 1200047995962 * 2 ^ (0 + 0 + 1)"
    by (rule power_upper_mult[OF growth_upper_8[OF assms] growth_upper_8[OF assms] assms(1)]) simp
  then show ?thesis unfolding e .
qed

lemma growth_upper_32:
  fixes b :: real
  assumes "0 \<le> b" "b ^ 1 * 2 ^ 40 \<le> 1154487209165 * 2 ^ 0"
  shows "b ^ 32 * 2 ^ 40 \<le> 1309777137624 * 2 ^ 2"
proof -
  have e: "(16::nat) + 16 = 32" "(1::nat) + 1 + 0 = 2" by simp_all
  have "b ^ (16 + 16) * 2 ^ 40 \<le> 1309777137624 * 2 ^ (1 + 1 + 0)"
    by (rule power_upper_mult[OF growth_upper_16[OF assms] growth_upper_16[OF assms] assms(1)]) simp
  then show ?thesis unfolding e .
qed

lemma growth_upper_64:
  fixes b :: real
  assumes "0 \<le> b" "b ^ 1 * 2 ^ 40 \<le> 1154487209165 * 2 ^ 0"
  shows "b ^ 64 * 2 ^ 40 \<le> 1560252849452 * 2 ^ 4"
proof -
  have e: "(32::nat) + 32 = 64" "(2::nat) + 2 + 0 = 4" by simp_all
  have "b ^ (32 + 32) * 2 ^ 40 \<le> 1560252849452 * 2 ^ (2 + 2 + 0)"
    by (rule power_upper_mult[OF growth_upper_32[OF assms] growth_upper_32[OF assms] assms(1)]) simp
  then show ?thesis unfolding e .
qed

lemma growth_upper_128:
  fixes b :: real
  assumes "0 \<le> b" "b ^ 1 * 2 ^ 40 \<le> 1154487209165 * 2 ^ 0"
  shows "b ^ 128 * 2 ^ 40 \<le> 1107031927961 * 2 ^ 9"
proof -
  have e: "(64::nat) + 64 = 128" "(4::nat) + 4 + 1 = 9" by simp_all
  have "b ^ (64 + 64) * 2 ^ 40 \<le> 1107031927961 * 2 ^ (4 + 4 + 1)"
    by (rule power_upper_mult[OF growth_upper_64[OF assms] growth_upper_64[OF assms] assms(1)]) simp
  then show ?thesis unfolding e .
qed

lemma growth_upper_256:
  fixes b :: real
  assumes "0 \<le> b" "b ^ 1 * 2 ^ 40 \<le> 1154487209165 * 2 ^ 0"
  shows "b ^ 256 * 2 ^ 40 \<le> 1114603664542 * 2 ^ 18"
proof -
  have e: "(128::nat) + 128 = 256" "(9::nat) + 9 + 0 = 18" by simp_all
  have "b ^ (128 + 128) * 2 ^ 40 \<le> 1114603664542 * 2 ^ (9 + 9 + 0)"
    by (rule power_upper_mult[OF growth_upper_128[OF assms] growth_upper_128[OF assms] assms(1)]) simp
  then show ?thesis unfolding e .
qed

lemma growth_upper_512:
  fixes b :: real
  assumes "0 \<le> b" "b ^ 1 * 2 ^ 40 \<le> 1154487209165 * 2 ^ 0"
  shows "b ^ 512 * 2 ^ 40 \<le> 1129902856529 * 2 ^ 36"
proof -
  have e: "(256::nat) + 256 = 512" "(18::nat) + 18 + 0 = 36" by simp_all
  have "b ^ (256 + 256) * 2 ^ 40 \<le> 1129902856529 * 2 ^ (18 + 18 + 0)"
    by (rule power_upper_mult[OF growth_upper_256[OF assms] growth_upper_256[OF assms] assms(1)]) simp
  then show ?thesis unfolding e .
qed

lemma growth_upper_1024:
  fixes b :: real
  assumes "0 \<le> b" "b ^ 1 * 2 ^ 40 \<le> 1154487209165 * 2 ^ 0"
  shows "b ^ 1024 * 2 ^ 40 \<le> 1161134118950 * 2 ^ 72"
proof -
  have e: "(512::nat) + 512 = 1024" "(36::nat) + 36 + 0 = 72" by simp_all
  have "b ^ (512 + 512) * 2 ^ 40 \<le> 1161134118950 * 2 ^ (36 + 36 + 0)"
    by (rule power_upper_mult[OF growth_upper_512[OF assms] growth_upper_512[OF assms] assms(1)]) simp
  then show ?thesis unfolding e .
qed

lemma growth_upper_2048:
  fixes b :: real
  assumes "0 \<le> b" "b ^ 1 * 2 ^ 40 \<le> 1154487209165 * 2 ^ 0"
  shows "b ^ 2048 * 2 ^ 40 \<le> 1226210262930 * 2 ^ 144"
proof -
  have e: "(1024::nat) + 1024 = 2048" "(72::nat) + 72 + 0 = 144" by simp_all
  have "b ^ (1024 + 1024) * 2 ^ 40 \<le> 1226210262930 * 2 ^ (72 + 72 + 0)"
    by (rule power_upper_mult[OF growth_upper_1024[OF assms] growth_upper_1024[OF assms] assms(1)]) simp
  then show ?thesis unfolding e .
qed

lemma growth_upper_4096:
  fixes b :: real
  assumes "0 \<le> b" "b ^ 1 * 2 ^ 40 \<le> 1154487209165 * 2 ^ 0"
  shows "b ^ 4096 * 2 ^ 40 \<le> 1367508601939 * 2 ^ 288"
proof -
  have e: "(2048::nat) + 2048 = 4096" "(144::nat) + 144 + 0 = 288" by simp_all
  have "b ^ (2048 + 2048) * 2 ^ 40 \<le> 1367508601939 * 2 ^ (144 + 144 + 0)"
    by (rule power_upper_mult[OF growth_upper_2048[OF assms] growth_upper_2048[OF assms] assms(1)]) simp
  then show ?thesis unfolding e .
qed

lemma growth_upper_8192:
  fixes b :: real
  assumes "0 \<le> b" "b ^ 1 * 2 ^ 40 \<le> 1154487209165 * 2 ^ 0"
  shows "b ^ 8192 * 2 ^ 40 \<le> 1700827648508 * 2 ^ 576"
proof -
  have e: "(4096::nat) + 4096 = 8192" "(288::nat) + 288 + 0 = 576" by simp_all
  have "b ^ (4096 + 4096) * 2 ^ 40 \<le> 1700827648508 * 2 ^ (288 + 288 + 0)"
    by (rule power_upper_mult[OF growth_upper_4096[OF assms] growth_upper_4096[OF assms] assms(1)]) simp
  then show ?thesis unfolding e .
qed

lemma growth_upper_sum_12288:
  fixes b :: real
  assumes "0 \<le> b" "b ^ 1 * 2 ^ 40 \<le> 1154487209165 * 2 ^ 0"
  shows "b ^ 12288 * 2 ^ 40 \<le> 2115390488826 * 2 ^ 864"
proof -
  have e: "(8192::nat) + 4096 = 12288" "(576::nat) + 288 + 0 = 864" by simp_all
  have "b ^ (8192 + 4096) * 2 ^ 40 \<le> 2115390488826 * 2 ^ (576 + 288 + 0)"
    by (rule power_upper_mult[OF growth_upper_8192[OF assms] growth_upper_4096[OF assms] assms(1)]) simp
  then show ?thesis unfolding e .
qed

lemma growth_upper_sum_14336:
  fixes b :: real
  assumes "0 \<le> b" "b ^ 1 * 2 ^ 40 \<le> 1154487209165 * 2 ^ 0"
  shows "b ^ 14336 * 2 ^ 40 \<le> 1179575305061 * 2 ^ 1009"
proof -
  have e: "(12288::nat) + 2048 = 14336" "(864::nat) + 144 + 1 = 1009" by simp_all
  have "b ^ (12288 + 2048) * 2 ^ 40 \<le> 1179575305061 * 2 ^ (864 + 144 + 1)"
    by (rule power_upper_mult[OF growth_upper_sum_12288[OF assms] growth_upper_2048[OF assms] assms(1)]) simp
  then show ?thesis unfolding e .
qed

lemma growth_upper_sum_14464:
  fixes b :: real
  assumes "0 \<le> b" "b ^ 1 * 2 ^ 40 \<le> 1154487209165 * 2 ^ 0"
  shows "b ^ 14464 * 2 ^ 40 \<le> 1187643214632 * 2 ^ 1018"
proof -
  have e: "(14336::nat) + 128 = 14464" "(1009::nat) + 9 + 0 = 1018" by simp_all
  have "b ^ (14336 + 128) * 2 ^ 40 \<le> 1187643214632 * 2 ^ (1009 + 9 + 0)"
    by (rule power_upper_mult[OF growth_upper_sum_14336[OF assms] growth_upper_128[OF assms] assms(1)]) simp
  then show ?thesis unfolding e .
qed

lemma growth_upper_sum_14528:
  fixes b :: real
  assumes "0 \<le> b" "b ^ 1 * 2 ^ 40 \<le> 1154487209165 * 2 ^ 0"
  shows "b ^ 14528 * 2 ^ 40 \<le> 1685315246289 * 2 ^ 1022"
proof -
  have e: "(14464::nat) + 64 = 14528" "(1018::nat) + 4 + 0 = 1022" by simp_all
  have "b ^ (14464 + 64) * 2 ^ 40 \<le> 1685315246289 * 2 ^ (1018 + 4 + 0)"
    by (rule power_upper_mult[OF growth_upper_sum_14464[OF assms] growth_upper_64[OF assms] assms(1)]) simp
  then show ?thesis unfolding e .
qed

lemma growth_upper_sum_14544:
  fixes b :: real
  assumes "0 \<le> b" "b ^ 1 * 2 ^ 40 \<le> 1154487209165 * 2 ^ 0"
  shows "b ^ 14544 * 2 ^ 40 \<le> 1839415912285 * 2 ^ 1023"
proof -
  have e: "(14528::nat) + 16 = 14544" "(1022::nat) + 1 + 0 = 1023" by simp_all
  have "b ^ (14528 + 16) * 2 ^ 40 \<le> 1839415912285 * 2 ^ (1022 + 1 + 0)"
    by (rule power_upper_mult[OF growth_upper_sum_14528[OF assms] growth_upper_16[OF assms] assms(1)]) simp
  then show ?thesis unfolding e .
qed

lemma growth_upper_sum_14546:
  fixes b :: real
  assumes "0 \<le> b" "b ^ 1 * 2 ^ 40 \<le> 1154487209165 * 2 ^ 0"
  shows "b ^ 14546 * 2 ^ 40 \<le> 2027956043296 * 2 ^ 1023"
proof -
  have e: "(14544::nat) + 2 = 14546" "(1023::nat) + 0 + 0 = 1023" by simp_all
  have "b ^ (14544 + 2) * 2 ^ 40 \<le> 2027956043296 * 2 ^ (1023 + 0 + 0)"
    by (rule power_upper_mult[OF growth_upper_sum_14544[OF assms] growth_upper_2[OF assms] assms(1)]) simp
  then show ?thesis unfolding e .
qed

lemma growth_upper_sum_14547:
  fixes b :: real
  assumes "0 \<le> b" "b ^ 1 * 2 ^ 40 \<le> 1154487209165 * 2 ^ 0"
  shows "b ^ 14547 * 2 ^ 40 \<le> 2129353845462 * 2 ^ 1023"
proof -
  have e: "(14546::nat) + 1 = 14547" "(1023::nat) + 0 + 0 = 1023" by simp_all
  have "b ^ (14546 + 1) * 2 ^ 40 \<le> 2129353845462 * 2 ^ (1023 + 0 + 0)"
    by (rule power_upper_mult[OF growth_upper_sum_14546[OF assms] assms(2) assms(1)]) simp
  then show ?thesis unfolding e .
qed

text \<open>
  Lower bounds on \<open>b\<^sup>n\<close> for \<open>n = 2, 4, \<dots>, 8192\<close> and then \<open>n = 14548\<close>, for every \<open>b\<close>
  above the bound of the first line.
\<close>

lemma growth_lower_2:
  fixes b :: real
  assumes "1154487209164 * 2 ^ 0 \<le> b ^ 1 * 2 ^ 40"
  shows "1212211569621 * 2 ^ 0 \<le> b ^ 2 * 2 ^ 40"
proof -
  have e: "(1::nat) + 1 = 2" "(0::nat) + 0 + 0 = 0" by simp_all
  have "1212211569621 * 2 ^ (0 + 0 + 0) \<le> b ^ (1 + 1) * 2 ^ 40"
    by (rule power_lower_mult[OF assms assms]) simp_all
  then show ?thesis unfolding e .
qed

lemma growth_lower_4:
  fixes b :: real
  assumes "1154487209164 * 2 ^ 0 \<le> b ^ 1 * 2 ^ 40"
  shows "1336463255504 * 2 ^ 0 \<le> b ^ 4 * 2 ^ 40"
proof -
  have e: "(2::nat) + 2 = 4" "(0::nat) + 0 + 0 = 0" by simp_all
  have "1336463255504 * 2 ^ (0 + 0 + 0) \<le> b ^ (2 + 2) * 2 ^ 40"
    by (rule power_lower_mult[OF growth_lower_2[OF assms] growth_lower_2[OF assms]]) simp_all
  then show ?thesis unfolding e .
qed

lemma growth_lower_8:
  fixes b :: real
  assumes "1154487209164 * 2 ^ 0 \<le> b ^ 1 * 2 ^ 40"
  shows "1624479439953 * 2 ^ 0 \<le> b ^ 8 * 2 ^ 40"
proof -
  have e: "(4::nat) + 4 = 8" "(0::nat) + 0 + 0 = 0" by simp_all
  have "1624479439953 * 2 ^ (0 + 0 + 0) \<le> b ^ (4 + 4) * 2 ^ 40"
    by (rule power_lower_mult[OF growth_lower_4[OF assms] growth_lower_4[OF assms]]) simp_all
  then show ?thesis unfolding e .
qed

lemma growth_lower_16:
  fixes b :: real
  assumes "1154487209164 * 2 ^ 0 \<le> b ^ 1 * 2 ^ 40"
  shows "1200047995930 * 2 ^ 1 \<le> b ^ 16 * 2 ^ 40"
proof -
  have e: "(8::nat) + 8 = 16" "(0::nat) + 0 + 1 = 1" by simp_all
  have "1200047995930 * 2 ^ (0 + 0 + 1) \<le> b ^ (8 + 8) * 2 ^ 40"
    by (rule power_lower_mult[OF growth_lower_8[OF assms] growth_lower_8[OF assms]]) simp_all
  then show ?thesis unfolding e .
qed

lemma growth_lower_32:
  fixes b :: real
  assumes "1154487209164 * 2 ^ 0 \<le> b ^ 1 * 2 ^ 40"
  shows "1309777137553 * 2 ^ 2 \<le> b ^ 32 * 2 ^ 40"
proof -
  have e: "(16::nat) + 16 = 32" "(1::nat) + 1 + 0 = 2" by simp_all
  have "1309777137553 * 2 ^ (1 + 1 + 0) \<le> b ^ (16 + 16) * 2 ^ 40"
    by (rule power_lower_mult[OF growth_lower_16[OF assms] growth_lower_16[OF assms]]) simp_all
  then show ?thesis unfolding e .
qed

lemma growth_lower_64:
  fixes b :: real
  assumes "1154487209164 * 2 ^ 0 \<le> b ^ 1 * 2 ^ 40"
  shows "1560252849282 * 2 ^ 4 \<le> b ^ 64 * 2 ^ 40"
proof -
  have e: "(32::nat) + 32 = 64" "(2::nat) + 2 + 0 = 4" by simp_all
  have "1560252849282 * 2 ^ (2 + 2 + 0) \<le> b ^ (32 + 32) * 2 ^ 40"
    by (rule power_lower_mult[OF growth_lower_32[OF assms] growth_lower_32[OF assms]]) simp_all
  then show ?thesis unfolding e .
qed

lemma growth_lower_128:
  fixes b :: real
  assumes "1154487209164 * 2 ^ 0 \<le> b ^ 1 * 2 ^ 40"
  shows "1107031927718 * 2 ^ 9 \<le> b ^ 128 * 2 ^ 40"
proof -
  have e: "(64::nat) + 64 = 128" "(4::nat) + 4 + 1 = 9" by simp_all
  have "1107031927718 * 2 ^ (4 + 4 + 1) \<le> b ^ (64 + 64) * 2 ^ 40"
    by (rule power_lower_mult[OF growth_lower_64[OF assms] growth_lower_64[OF assms]]) simp_all
  then show ?thesis unfolding e .
qed

lemma growth_lower_256:
  fixes b :: real
  assumes "1154487209164 * 2 ^ 0 \<le> b ^ 1 * 2 ^ 40"
  shows "1114603664052 * 2 ^ 18 \<le> b ^ 256 * 2 ^ 40"
proof -
  have e: "(128::nat) + 128 = 256" "(9::nat) + 9 + 0 = 18" by simp_all
  have "1114603664052 * 2 ^ (9 + 9 + 0) \<le> b ^ (128 + 128) * 2 ^ 40"
    by (rule power_lower_mult[OF growth_lower_128[OF assms] growth_lower_128[OF assms]]) simp_all
  then show ?thesis unfolding e .
qed

lemma growth_lower_512:
  fixes b :: real
  assumes "1154487209164 * 2 ^ 0 \<le> b ^ 1 * 2 ^ 40"
  shows "1129902855535 * 2 ^ 36 \<le> b ^ 512 * 2 ^ 40"
proof -
  have e: "(256::nat) + 256 = 512" "(18::nat) + 18 + 0 = 36" by simp_all
  have "1129902855535 * 2 ^ (18 + 18 + 0) \<le> b ^ (256 + 256) * 2 ^ 40"
    by (rule power_lower_mult[OF growth_lower_256[OF assms] growth_lower_256[OF assms]]) simp_all
  then show ?thesis unfolding e .
qed

lemma growth_lower_1024:
  fixes b :: real
  assumes "1154487209164 * 2 ^ 0 \<le> b ^ 1 * 2 ^ 40"
  shows "1161134116906 * 2 ^ 72 \<le> b ^ 1024 * 2 ^ 40"
proof -
  have e: "(512::nat) + 512 = 1024" "(36::nat) + 36 + 0 = 72" by simp_all
  have "1161134116906 * 2 ^ (36 + 36 + 0) \<le> b ^ (512 + 512) * 2 ^ 40"
    by (rule power_lower_mult[OF growth_lower_512[OF assms] growth_lower_512[OF assms]]) simp_all
  then show ?thesis unfolding e .
qed

lemma growth_lower_2048:
  fixes b :: real
  assumes "1154487209164 * 2 ^ 0 \<le> b ^ 1 * 2 ^ 40"
  shows "1226210258612 * 2 ^ 144 \<le> b ^ 2048 * 2 ^ 40"
proof -
  have e: "(1024::nat) + 1024 = 2048" "(72::nat) + 72 + 0 = 144" by simp_all
  have "1226210258612 * 2 ^ (72 + 72 + 0) \<le> b ^ (1024 + 1024) * 2 ^ 40"
    by (rule power_lower_mult[OF growth_lower_1024[OF assms] growth_lower_1024[OF assms]]) simp_all
  then show ?thesis unfolding e .
qed

lemma growth_lower_4096:
  fixes b :: real
  assumes "1154487209164 * 2 ^ 0 \<le> b ^ 1 * 2 ^ 40"
  shows "1367508592307 * 2 ^ 288 \<le> b ^ 4096 * 2 ^ 40"
proof -
  have e: "(2048::nat) + 2048 = 4096" "(144::nat) + 144 + 0 = 288" by simp_all
  have "1367508592307 * 2 ^ (144 + 144 + 0) \<le> b ^ (2048 + 2048) * 2 ^ 40"
    by (rule power_lower_mult[OF growth_lower_2048[OF assms] growth_lower_2048[OF assms]]) simp_all
  then show ?thesis unfolding e .
qed

lemma growth_lower_8192:
  fixes b :: real
  assumes "1154487209164 * 2 ^ 0 \<le> b ^ 1 * 2 ^ 40"
  shows "1700827624548 * 2 ^ 576 \<le> b ^ 8192 * 2 ^ 40"
proof -
  have e: "(4096::nat) + 4096 = 8192" "(288::nat) + 288 + 0 = 576" by simp_all
  have "1700827624548 * 2 ^ (288 + 288 + 0) \<le> b ^ (4096 + 4096) * 2 ^ 40"
    by (rule power_lower_mult[OF growth_lower_4096[OF assms] growth_lower_4096[OF assms]]) simp_all
  then show ?thesis unfolding e .
qed

lemma growth_lower_sum_12288:
  fixes b :: real
  assumes "1154487209164 * 2 ^ 0 \<le> b ^ 1 * 2 ^ 40"
  shows "2115390444125 * 2 ^ 864 \<le> b ^ 12288 * 2 ^ 40"
proof -
  have e: "(8192::nat) + 4096 = 12288" "(576::nat) + 288 + 0 = 864" by simp_all
  have "2115390444125 * 2 ^ (576 + 288 + 0) \<le> b ^ (8192 + 4096) * 2 ^ 40"
    by (rule power_lower_mult[OF growth_lower_8192[OF assms] growth_lower_4096[OF assms]]) simp_all
  then show ?thesis unfolding e .
qed

lemma growth_lower_sum_14336:
  fixes b :: real
  assumes "1154487209164 * 2 ^ 0 \<le> b ^ 1 * 2 ^ 40"
  shows "1179575275980 * 2 ^ 1009 \<le> b ^ 14336 * 2 ^ 40"
proof -
  have e: "(12288::nat) + 2048 = 14336" "(864::nat) + 144 + 1 = 1009" by simp_all
  have "1179575275980 * 2 ^ (864 + 144 + 1) \<le> b ^ (12288 + 2048) * 2 ^ 40"
    by (rule power_lower_mult[OF growth_lower_sum_12288[OF assms] growth_lower_2048[OF assms]]) simp_all
  then show ?thesis unfolding e .
qed

lemma growth_lower_sum_14464:
  fixes b :: real
  assumes "1154487209164 * 2 ^ 0 \<le> b ^ 1 * 2 ^ 40"
  shows "1187643185091 * 2 ^ 1018 \<le> b ^ 14464 * 2 ^ 40"
proof -
  have e: "(14336::nat) + 128 = 14464" "(1009::nat) + 9 + 0 = 1018" by simp_all
  have "1187643185091 * 2 ^ (1009 + 9 + 0) \<le> b ^ (14336 + 128) * 2 ^ 40"
    by (rule power_lower_mult[OF growth_lower_sum_14336[OF assms] growth_lower_128[OF assms]]) simp_all
  then show ?thesis unfolding e .
qed

lemma growth_lower_sum_14528:
  fixes b :: real
  assumes "1154487209164 * 2 ^ 0 \<le> b ^ 1 * 2 ^ 40"
  shows "1685315204184 * 2 ^ 1022 \<le> b ^ 14528 * 2 ^ 40"
proof -
  have e: "(14464::nat) + 64 = 14528" "(1018::nat) + 4 + 0 = 1022" by simp_all
  have "1685315204184 * 2 ^ (1018 + 4 + 0) \<le> b ^ (14464 + 64) * 2 ^ 40"
    by (rule power_lower_mult[OF growth_lower_sum_14464[OF assms] growth_lower_64[OF assms]]) simp_all
  then show ?thesis unfolding e .
qed

lemma growth_lower_sum_14544:
  fixes b :: real
  assumes "1154487209164 * 2 ^ 0 \<le> b ^ 1 * 2 ^ 40"
  shows "1839415866280 * 2 ^ 1023 \<le> b ^ 14544 * 2 ^ 40"
proof -
  have e: "(14528::nat) + 16 = 14544" "(1022::nat) + 1 + 0 = 1023" by simp_all
  have "1839415866280 * 2 ^ (1022 + 1 + 0) \<le> b ^ (14528 + 16) * 2 ^ 40"
    by (rule power_lower_mult[OF growth_lower_sum_14528[OF assms] growth_lower_16[OF assms]]) simp_all
  then show ?thesis unfolding e .
qed

lemma growth_lower_sum_14548:
  fixes b :: real
  assumes "1154487209164 * 2 ^ 0 \<le> b ^ 1 * 2 ^ 40"
  shows "1117910740901 * 2 ^ 1024 \<le> b ^ 14548 * 2 ^ 40"
proof -
  have e: "(14544::nat) + 4 = 14548" "(1023::nat) + 0 + 1 = 1024" by simp_all
  have "1117910740901 * 2 ^ (1023 + 0 + 1) \<le> b ^ (14544 + 4) * 2 ^ 40"
    by (rule power_lower_mult[OF growth_lower_sum_14544[OF assms] growth_lower_4[OF assms]]) simp_all
  then show ?thesis unfolding e .
qed

text \<open>
  The growth factor \<^verbatim>\<open>1.05 ** n\<close> is a finite double for \<open>n \<le> 14547\<close> and exceeds the
  largest double from \<open>n = 14548\<close> on.
\<close>

lemma growth_14547: "(1.05::real) ^ 14547 \<le> float_max"
proof -
  have b0: "0 \<le> (1.05::real)" by simp
  have b1: "(1.05::real) ^ 1 * 2 ^ 40 \<le> 1154487209165 * 2 ^ 0" by simp
  note growth_upper_sum_14547[OF b0 b1]
  also have "(2129353845462::real) * 2 ^ 1023 \<le> float_max * 2 ^ 40"
  proof -
    have "(2129353845462::real) * 2 ^ 1023 = (2129353845462 * 2 ^ 12) * 2 ^ 1011"
      by (simp only: mult.assoc power_add[symmetric]) simp
    also have "\<dots> \<le> (2 ^ 53 - 1) * 2 ^ 1011"
      by (rule mult_right_mono) simp_all
    also have "\<dots> = float_max * 2 ^ 40"
      unfolding float_max_def by (simp only: mult.assoc power_add[symmetric]) simp
    finally show ?thesis .
  qed
  finally show ?thesis by (rule mult_right_le_imp_le) simp
qed

lemma growth_14548: "float_max < (1.05::real) ^ 14548"
proof -
  have b1: "1154487209164 * 2 ^ 0 \<le> (1.05::real) ^ 1 * 2 ^ 40" by simp
  have "float_max * 2 ^ 40 = (2 ^ 53 - 1) * 2 ^ 1011"
    unfolding float_max_def by (simp only: mult.assoc power_add[symmetric]) simp
  also have "\<dots> < (1117910740901 * 2 ^ 13) * 2 ^ 1011"
    by (rule mult_strict_right_mono) simp_all
  also have "\<dots> = (1117910740901::real) * 2 ^ 1024"
    by (simp only: mult.assoc power_add[symmetric]) simp
  also note growth_lower_sum_14548[OF b1]
  finally show ?thesis by (rule mult_right_less_imp_less) simp
qed

lemma growth_representable_iff:
  assumes "1 \<le> y"
  shows "growth_representable y \<longleftrightarrow> y \<le> 14548"
proof
  assume g: "growth_representable y"
  show "y \<le> 14548"
  proof (rule ccontr)
    assume "\<not> y \<le> 14548"
    then have n: "14548 \<le> nat (y - 1)" by simp
    have "(1.05::real) ^ 14548 \<le> 1.05 ^ nat (y - 1)"
      by (rule power_increasing) (use n in simp_all)
    with growth_14548 have lt: "float_max < (1.05::real) ^ nat (y - 1)"
      by (rule less_le_trans)
    from g have le: "(1.05::real) ^ nat (y - 1) \<le> float_max"
      unfolding growth_representable_def .
    from leD[OF le] lt show False by blast
  qed
next
  assume "y \<le> 14548"
  with assms have n: "nat (y - 1) \<le> 14547" by simp
  have "(1.05::real) ^ nat (y - 1) \<le> 1.05 ^ 14547"
    by (rule power_increasing) (use n in simp_all)
  from this growth_14547 show "growth_representable y"
    unfolding growth_representable_def by (rule order_trans)
qed

lemma all_growth_representable_iff:
  "(\<forall>y \<in> {1..years}. growth_representable y) \<longleftrightarrow> years \<le> 14548"
proof
  assume a: "\<forall>y \<in> {1..years}. growth_representable y"
  show "years \<le> 14548"
  proof (rule ccontr)
    assume "\<not> years \<le> 14548"
    then have "(14549::int) \<in> {1..years}" by simp
    with a have "growth_representable 14549" ..
    with growth_representable_iff[of 14549] show False by simp
  qed
next
  assume "years \<le> 14548"
  then show "\<forall>y \<in> {1..years}. growth_representable y"
    using growth_representable_iff by auto
qed

section \<open>The ROI projector\<close>

lemma py_float_pow_growth:
  "1 \<le> y \<Longrightarrow> py_float_pow 1.05 (y - 1) =
     (if growth_representable y then Inr (py (1.05 ^ nat (y - 1))) else Inl OverflowError)"
  by (simp add: py_float_pow_def growth_representable_def Let_def not_le)

text \<open>Behind the test \<^verbatim>\<open>upfront_cost > 0\<close> the division does not raise.\<close>

lemma roi_of_eq: "roi_of c u = Inr (guarded_roi c u)"
  by (cases "fval_of u") (auto simp: roi_of_def guarded_roi_def truediv_def ngt_def ebind_def)

lemma roi_loop_Cons:
  "1 \<le> y \<Longrightarrow> roi_loop s m u (y # ys) (c, cc, rows) =
     (if growth_representable y
      then roi_loop s m u ys (nadd c (net_of_year s m y), nadd cc m,
             rows @ [item_of_year s m u y (nadd c (net_of_year s m y))])
      else Inl OverflowError)"
  by (simp only: roi_loop.simps py_float_pow_growth)
     (simp add: roi_of_eq ebind_def Let_def net_of_year_def savings_of_year_def
        item_of_year_def)

lemma roi_loop_upto:
  assumes "1 \<le> i"
  shows "roi_loop s m u [i..n] (c, cc, rows) =
     (if \<forall>y \<in> {i..n}. growth_representable y
      then Inr (foldl nadd c (map (net_of_year s m) [i..n]),
                foldl nadd cc (map (\<lambda>y. m) [i..n]),
                rows @ map (\<lambda>y. item_of_year s m u y
                                  (foldl nadd c (map (net_of_year s m) [i..y]))) [i..n])
      else Inl OverflowError)"
  using assms
proof (induction i n arbitrary: c cc rows rule: upto.induct)
  case (1 i n)
  show ?case
  proof (cases "i \<le> n")
    case False
    then show ?thesis by simp
  next
    case True
    have rec: "[i..n] = i # [i + 1..n]" using True by (simp add: upto_rec1)
    have all: "(\<forall>y \<in> {i..n}. growth_representable y) \<longleftrightarrow>
        growth_representable i \<and> (\<forall>y \<in> {i + 1..n}. growth_representable y)"
    proof -
      have "{i..n} = insert i {i + 1..n}" using True by auto
      then show ?thesis by simp
    qed
    show ?thesis
    proof (cases "growth_representable i")
      case False
      have "roi_loop s m u [i..n] (c, cc, rows) = Inl OverflowError"
        by (simp only: rec roi_loop_Cons[OF "1.prems"] False if_False)
      with False all show ?thesis by simp
    next
      case g: True
      let ?c = "nadd c (net_of_year s m i)"
      let ?rows = "rows @ [item_of_year s m u i ?c]"
      have step: "roi_loop s m u [i..n] (c, cc, rows) =
          roi_loop s m u [i + 1..n] (?c, nadd cc m, ?rows)"
        by (simp only: rec roi_loop_Cons[OF "1.prems"] g if_True)
      have i1: "1 \<le> i + 1" using "1.prems" by simp
      note ih = "1.IH"[OF True i1, of ?c "nadd cc m" ?rows]
      have hd: "[i..i] = [i]" by (simp add: upto_rec1)
      have c1: "foldl nadd ?c (map (net_of_year s m) [i + 1..n]) =
          foldl nadd c (map (net_of_year s m) [i..n])"
        by (subst rec) simp
      have c2: "foldl nadd (nadd cc m) (map (\<lambda>y. m) [i + 1..n]) =
          foldl nadd cc (map (\<lambda>y. m) [i..n])"
        by (subst rec) simp
      have tl: "map (\<lambda>y. item_of_year s m u y
                   (foldl nadd ?c (map (net_of_year s m) [i + 1..y]))) [i + 1..n] =
          map (\<lambda>y. item_of_year s m u y
                   (foldl nadd c (map (net_of_year s m) [i..y]))) [i + 1..n]"
        by (rule map_cong) (auto simp: upto_rec1[of i])
      have c3: "?rows @ map (\<lambda>y. item_of_year s m u y
                   (foldl nadd c (map (net_of_year s m) [i..y]))) [i + 1..n] =
          rows @ map (\<lambda>y. item_of_year s m u y
                   (foldl nadd c (map (net_of_year s m) [i..y]))) [i..n]"
        by (subst rec) (simp add: hd)
      show ?thesis
        unfolding step ih all tl c1 c2 c3 using g by simp
    qed
  qed
qed

lemma payback_loop_None:
  "payback_loop None rows = None \<longleftrightarrow>
     (\<forall>a \<in> set rows. \<not> nge (cumulative_net a) (py 0))"
  by (induction rows) auto

lemma payback_loop_Some:
  "payback_loop None rows = Some y \<Longrightarrow>
     \<exists>k < length rows. year (rows ! k) = y \<and> nge (cumulative_net (rows ! k)) (py 0) \<and>
        (\<forall>j < k. \<not> nge (cumulative_net (rows ! j)) (py 0))"
proof (induction rows)
  case Nil
  then show ?case by simp
next
  case (Cons a rows)
  show ?case
  proof (cases "nge (cumulative_net a) (py 0)")
    case True
    with Cons.prems have "year a = y" by simp
    with True show ?thesis by (intro exI[of _ 0]) simp
  next
    case False
    with Cons.prems have "payback_loop None rows = Some y" by simp
    from Cons.IH[OF this] obtain k where k: "k < length rows" "year (rows ! k) = y"
      "nge (cumulative_net (rows ! k)) (py 0)"
      "\<forall>j < k. \<not> nge (cumulative_net (rows ! j)) (py 0)" by blast
    have "\<forall>j < Suc k. \<not> nge (cumulative_net ((a # rows) ! j)) (py 0)"
      using False k(4) by (auto simp: less_Suc_eq_0_disj)
    with k show ?thesis by (intro exI[of _ "Suc k"]) simp
  qed
qed

text \<open>The projector in closed form: it returns for a horizon up to 14548 years and
  raises \<open>OverflowError\<close> in year 14549 of a longer one.\<close>

lemma calculate_roi_analysis_eq:
  assumes "ai_implementation_costs data = Inr (u, m)"
      and "savings_dict ''total_annual_savings'' = Some s"
  shows "calculate_roi_analysis data savings_dict years =
     (if years \<le> 14548 then
        Inr \<lparr>yearly_analysis = projection_items s m u years,
             total_roi_percentage = guarded_roi (cumulative_net_upto s m years) u,
             payback_period_years = payback_loop None (projection_items s m u years),
             total_investment = nadd u (nmul m (py (of_int years))),
             total_savings = nadd (cumulative_net_upto s m years) u,
             final_net_benefit = cumulative_net_upto s m years\<rparr>
      else Inl OverflowError)"
  using assms
  by (simp add: calculate_roi_analysis_def ebind_def getitem_def roi_loop_upto roi_of_eq
      projection_items_def cumulative_net_upto_def all_growth_representable_iff)

lemma calculate_roi_analysis_Inr:
  assumes "calculate_roi_analysis data savings_dict years = Inr r"
  shows "\<exists>u m s. ai_implementation_costs data = Inr (u, m) \<and>
           savings_dict ''total_annual_savings'' = Some s"
  using assms
  by (auto simp: calculate_roi_analysis_def ebind_def getitem_def
      split: sum.splits option.splits)

lemma ai_implementation_costs_Inl:
  "ai_implementation_costs data = Inl e \<Longrightarrow> \<exists>k. e = KeyError k"
  by (auto simp: ai_implementation_costs_def df_getitem_def ebind_def
      split: option.splits if_splits sum.splits)

lemma calculate_roi_analysis_Inl:
  assumes "calculate_roi_analysis data savings_dict years = Inl e"
  shows "(\<exists>k. e = KeyError k) \<or> (e = OverflowError \<and> 14548 < years)"
proof (cases "ai_implementation_costs data")
  case (Inl e')
  with assms have "e = e'" by (simp add: calculate_roi_analysis_def ebind_def)
  with ai_implementation_costs_Inl[OF Inl] show ?thesis by simp
next
  case (Inr um)
  obtain u m where um: "um = (u, m)" by (cases um)
  show ?thesis
  proof (cases "savings_dict ''total_annual_savings''")
    case None
    with assms Inr show ?thesis
      by (auto simp: calculate_roi_analysis_def ebind_def getitem_def um)
  next
    case (Some s)
    from assms calculate_roi_analysis_eq[where savings_dict = savings_dict,
        OF Inr[unfolded um] Some, of years]
    show ?thesis by (auto split: if_splits)
  qed
qed


lemma projection_items_years:
  "map year (projection_items s m u years) = [1..years]"
  by (simp add: projection_items_def item_of_year_def comp_def)






text \<open>
  C6. Whenever the projector returns, its items are those of the years \<open>1..years\<close> in
  ascending order; the payback period is absent exactly when no item has a cumulative
  net benefit \<^verbatim>\<open>>= 0\<close>; and a payback period \<open>y\<close> is a year of the horizon
  whose cumulative net benefit is \<^verbatim>\<open>>= 0\<close> while that of no earlier year is.
\<close>

theorem payback_is_first_nonnegative_year:
  assumes "calculate_roi_analysis data savings_dict years = Inr r"
  shows "map year (yearly_analysis r) = [1..years] \<and>
         (payback_period_years r = None \<longleftrightarrow>
            (\<forall>a \<in> set (yearly_analysis r). \<not> nge (cumulative_net a) (py 0))) \<and>
         (\<forall>y. payback_period_years r = Some y \<longrightarrow>
            1 \<le> y \<and> y \<le> years \<and>
            year (yearly_analysis r ! nat (y - 1)) = y \<and>
            nge (cumulative_net (yearly_analysis r ! nat (y - 1))) (py 0) \<and>
            (\<forall>y'. 1 \<le> y' \<and> y' < y \<longrightarrow>
               \<not> nge (cumulative_net (yearly_analysis r ! nat (y' - 1))) (py 0)))"
proof -
  from calculate_roi_analysis_Inr[OF assms] obtain u m s where
    c: "ai_implementation_costs data = Inr (u, m)"
    and s: "savings_dict ''total_annual_savings'' = Some s" by blast
  let ?rows = "projection_items s m u years"
  from assms calculate_roi_analysis_eq[where savings_dict = savings_dict, OF c s, of years]
  have rows: "yearly_analysis r = ?rows"
    and pay: "payback_period_years r = payback_loop None ?rows" by (auto split: if_splits)
  have years: "map year ?rows = [1..years]" by (rule projection_items_years)
  have len: "length ?rows = nat years" by (simp add: projection_items_def)
  have year_nth: "year (?rows ! k) = 1 + int k" if "k < length ?rows" for k
  proof -
    from that have "year (?rows ! k) = map year ?rows ! k" by simp
    also have "\<dots> = 1 + int k" using that len by (simp only: years) simp
    finally show ?thesis .
  qed
  have some: "1 \<le> y \<and> y \<le> years \<and> year (?rows ! nat (y - 1)) = y \<and>
      nge (cumulative_net (?rows ! nat (y - 1))) (py 0) \<and>
      (\<forall>y'. 1 \<le> y' \<and> y' < y \<longrightarrow> \<not> nge (cumulative_net (?rows ! nat (y' - 1))) (py 0))"
    if "payback_loop None ?rows = Some y" for y
  proof -
    from payback_loop_Some[OF that] obtain k where k: "k < length ?rows"
      "year (?rows ! k) = y" "nge (cumulative_net (?rows ! k)) (py 0)"
      "\<forall>j < k. \<not> nge (cumulative_net (?rows ! j)) (py 0)" by blast
    from year_nth[OF k(1)] k(2) have y: "y = 1 + int k" by simp
    then have nk: "nat (y - 1) = k" by simp
    have "\<not> nge (cumulative_net (?rows ! nat (y' - 1))) (py 0)" if "1 \<le> y' \<and> y' < y" for y'
    proof -
      from that y have "nat (y' - 1) < k" by arith
      with k(4) show ?thesis by blast
    qed
    with k y nk len show ?thesis by auto
  qed
  from years some show ?thesis
    unfolding rows pay by (simp only: payback_loop_None) blast
qed

text \<open>A horizon that pays back in its first year, and one that never pays back.\<close>

theorem payback_is_first_nonnegative_year_witness:
  "(\<exists>r. calculate_roi_analysis [''ai_costs'' \<mapsto> free_ai_costs] test_savings 2 = Inr r \<and>
        map year (yearly_analysis r) = [1, 2] \<and> payback_period_years r = Some 1 \<and>
        nge (cumulative_net (yearly_analysis r ! 0)) (py 0)) \<and>
   (\<exists>r. calculate_roi_analysis Map.empty test_savings 2 = Inr r \<and>
        map year (yearly_analysis r) = [1, 2] \<and> payback_period_years r = None \<and>
        (\<forall>a \<in> set (yearly_analysis r). \<not> nge (cumulative_net a) (py 0)))"
proof -
  have u12: "[1..2::int] = [1, 2]" "[1..1::int] = [1]"
    by (simp_all add: upto_rec1)
  have c1: "ai_implementation_costs [''ai_costs'' \<mapsto> free_ai_costs] =
      Inr (Np (Fin 0), Np (Fin 100))"
    by (simp add: ai_implementation_costs_def free_ai_costs_def df_empty_def df_getitem_def
        ebind_def series_sum_def)
  have c2: "ai_implementation_costs Map.empty = Inr (py (3 * 10 ^ 12), py (6 * 10 ^ 11))"
    by (simp add: ai_implementation_costs_def)
  have s: "test_savings ''total_annual_savings'' = Some (py 1000)"
    by (simp add: test_savings_def)
  have "\<exists>r. calculate_roi_analysis [''ai_costs'' \<mapsto> free_ai_costs] test_savings 2 = Inr r \<and>
      payback_period_years r = Some 1"
    by (simp add: calculate_roi_analysis_eq[where savings_dict = test_savings, OF c1 s]
        projection_items_def u12 item_of_year_def net_of_year_def savings_of_year_def
        cumulative_net_upto_def nadd_def nsub_def nmul_def coerce_def fsub_def nge_def fle_def)
  then obtain r1 where
    r1: "calculate_roi_analysis [''ai_costs'' \<mapsto> free_ai_costs] test_savings 2 = Inr r1"
        "payback_period_years r1 = Some 1" by blast
  have "\<exists>r. calculate_roi_analysis Map.empty test_savings 2 = Inr r \<and>
      payback_period_years r = None"
    by (simp add: calculate_roi_analysis_eq[where savings_dict = test_savings, OF c2 s]
        projection_items_def u12 item_of_year_def net_of_year_def savings_of_year_def
        cumulative_net_upto_def nadd_def nsub_def nmul_def coerce_def fsub_def nge_def fle_def)
  then obtain r2 where
    r2: "calculate_roi_analysis Map.empty test_savings 2 = Inr r2"
        "payback_period_years r2 = None" by blast
  from payback_is_first_nonnegative_year[OF r1(1)] r1
  have "map year (yearly_analysis r1) = [1, 2] \<and>
      nge (cumulative_net (yearly_analysis r1 ! 0)) (py 0)"
    by (simp add: u12)
  with r1 have first:
    "\<exists>r. calculate_roi_analysis [''ai_costs'' \<mapsto> free_ai_costs] test_savings 2 = Inr r \<and>
        map year (yearly_analysis r) = [1, 2] \<and> payback_period_years r = Some 1 \<and>
        nge (cumulative_net (yearly_analysis r ! 0)) (py 0)"
    by (intro exI[of _ r1]) simp
  from payback_is_first_nonnegative_year[OF r2(1)] r2
  have "map year (yearly_analysis r2) = [1, 2] \<and>
      (\<forall>a \<in> set (yearly_analysis r2). \<not> nge (cumulative_net a) (py 0))"
    by (simp add: u12)
  with r2 have never:
    "\<exists>r. calculate_roi_analysis Map.empty test_savings 2 = Inr r \<and>
        map year (yearly_analysis r) = [1, 2] \<and> payback_period_years r = None \<and>
        (\<forall>a \<in> set (yearly_analysis r). \<not> nge (cumulative_net a) (py 0))"
    by (intro exI[of _ r2]) simp
  from first never show ?thesis by (rule conjI)
qed

text \<open>
  C8. With an upfront cost of zero the projector raises no division error, whatever the
  other inputs: both divisions by the upfront cost stand behind the test
  \<^verbatim>\<open>upfront_cost > 0\<close>. Whenever it returns, every year's ROI percentage and the total
  ROI percentage are \<open>0\<close>; and it returns whenever the savings carry their total and the
  horizon is at most 14548 years.
\<close>

theorem zero_upfront_cost_roi_zero:
  assumes "ai_implementation_costs data = Inr (u, m)" and "fval_of u = Fin 0"
  shows "calculate_roi_analysis data savings_dict years \<noteq> Inl ZeroDivisionError \<and>
         (savings_dict ''total_annual_savings'' \<noteq> None \<and> years \<le> 14548 \<longrightarrow>
            (\<exists>r. calculate_roi_analysis data savings_dict years = Inr r)) \<and>
         (\<forall>r. calculate_roi_analysis data savings_dict years = Inr r \<longrightarrow>
            total_roi_percentage r = py 0 \<and>
            (\<forall>a \<in> set (yearly_analysis r). roi_percentage a = py 0))"
proof -
  have no_division_error:
    "calculate_roi_analysis data savings_dict years \<noteq> Inl ZeroDivisionError"
    using calculate_roi_analysis_Inl[of data savings_dict years ZeroDivisionError] by auto
  have returns: "\<exists>r. calculate_roi_analysis data savings_dict years = Inr r"
    if "savings_dict ''total_annual_savings'' \<noteq> None \<and> years \<le> 14548"
  proof -
    from that obtain s where "savings_dict ''total_annual_savings'' = Some s" by auto
    from calculate_roi_analysis_eq[where savings_dict = savings_dict, OF assms(1) this, of years]
      that
    show ?thesis by simp
  qed
  have guard: "guarded_roi c u = py 0" for c
    using assms(2) by (simp add: guarded_roi_def ngt_def)
  have zero: "total_roi_percentage r = py 0 \<and>
      (\<forall>a \<in> set (yearly_analysis r). roi_percentage a = py 0)"
    if r: "calculate_roi_analysis data savings_dict years = Inr r" for r
  proof -
    from calculate_roi_analysis_Inr[OF r] assms(1) obtain s where
      s: "savings_dict ''total_annual_savings'' = Some s" by auto
    from r calculate_roi_analysis_eq[where savings_dict = savings_dict, OF assms(1) s, of years]
    have "yearly_analysis r = projection_items s m u years"
      and "total_roi_percentage r = guarded_roi (cumulative_net_upto s m years) u"
      by (auto split: if_splits)
    then show ?thesis
      by (auto simp: projection_items_def item_of_year_def guard)
  qed
  from no_division_error returns zero show ?thesis by blast
qed

text \<open>The theorem at a cost table whose upfront costs sum to zero, over five years.\<close>

theorem zero_upfront_cost_roi_zero_witness:
  "ai_implementation_costs [''ai_costs'' \<mapsto> free_ai_costs] = Inr (Np (Fin 0), Np (Fin 100)) \<and>
   fval_of (Np (Fin 0)) = Fin 0 \<and>
   test_savings ''total_annual_savings'' \<noteq> None \<and> (5::int) \<le> 14548 \<and>
   (\<exists>r. calculate_roi_analysis [''ai_costs'' \<mapsto> free_ai_costs] test_savings 5 = Inr r \<and>
      total_roi_percentage r = py 0 \<and> (\<forall>a \<in> set (yearly_analysis r). roi_percentage a = py 0) \<and>
      length (yearly_analysis r) = 5)"
proof -
  have c: "ai_implementation_costs [''ai_costs'' \<mapsto> free_ai_costs] =
      Inr (Np (Fin 0), Np (Fin 100))"
    by (simp add: ai_implementation_costs_def free_ai_costs_def df_empty_def df_getitem_def
        ebind_def series_sum_def)
  have s: "test_savings ''total_annual_savings'' = Some (py 1000)"
    by (simp add: test_savings_def)
  from zero_upfront_cost_roi_zero[where savings_dict = test_savings and years = 5, OF c] s
  obtain r where r: "calculate_roi_analysis [''ai_costs'' \<mapsto> free_ai_costs] test_savings 5 = Inr r"
    "total_roi_percentage r = py 0" "\<forall>a \<in> set (yearly_analysis r). roi_percentage a = py 0"
    by auto
  from r(1) calculate_roi_analysis_eq[where savings_dict = test_savings, OF c s, of 5]
  have "length (yearly_analysis r) = 5" by (auto simp: projection_items_def)
  with c s r show ?thesis by auto
qed

text \<open>
  C2, as the code has it. The projector does not validate its horizon. For
  \<open>years < 1\<close> the range \<^verbatim>\<open>range(1, years + 1)\<close> is empty, no exception is raised for the
  horizon, and (the cost columns and the savings total being there) the call returns: no
  yearly items, no payback period, a total ROI and a net benefit of \<open>0\<close>, and a total
  investment of \<open>upfront_cost + annual_maintenance * years\<close>. The total ROI is the float
  zero of \<^verbatim>\<open>0 / upfront_cost * 100\<close> when the upfront cost is positive and the \<^verbatim>\<open>int\<close>
  \<open>0\<close> otherwise.
\<close>

theorem horizon_below_one_returns_empty_projection:
  assumes "years < 1"
  shows "calculate_roi_analysis data savings_dict years \<noteq> Inl ConfigurationError \<and>
         (\<forall>u m s. ai_implementation_costs data = Inr (u, m) \<and>
              savings_dict ''total_annual_savings'' = Some s \<longrightarrow>
            calculate_roi_analysis data savings_dict years =
              Inr \<lparr>yearly_analysis = [],
                   total_roi_percentage =
                     (if is_np u \<and> ngt u (py 0) then Np (Fin 0) else py 0),
                   payback_period_years = None,
                   total_investment = nadd u (nmul m (py (of_int years))),
                   total_savings = u, final_net_benefit = py 0\<rparr>)"
proof (intro conjI allI impI)
  show "calculate_roi_analysis data savings_dict years \<noteq> Inl ConfigurationError"
    using calculate_roi_analysis_Inl[of data savings_dict years ConfigurationError] by auto
next
  fix u m s
  assume a: "ai_implementation_costs data = Inr (u, m) \<and>
    savings_dict ''total_annual_savings'' = Some s"
  from assms have e: "[1..years] = []" by simp
  from assms have y: "years \<le> 14548" by simp
  from a have c: "ai_implementation_costs data = Inr (u, m)"
    and s: "savings_dict ''total_annual_savings'' = Some s" by simp_all
  have g: "guarded_roi (py 0) u = (if is_np u \<and> ngt u (py 0) then Np (Fin 0) else py 0)"
    by (cases u; cases "fval_of u")
       (auto simp: guarded_roi_def ngt_def nmul_def coerce_def)
  show "calculate_roi_analysis data savings_dict years =
      Inr \<lparr>yearly_analysis = [],
           total_roi_percentage = (if is_np u \<and> ngt u (py 0) then Np (Fin 0) else py 0),
           payback_period_years = None,
           total_investment = nadd u (nmul m (py (of_int years))), total_savings = u,
           final_net_benefit = py 0\<rparr>"
    by (simp add: calculate_roi_analysis_eq[where savings_dict = savings_dict, OF c s]
        projection_items_def cumulative_net_upto_def e y g nadd_zero_left)
qed

theorem horizon_below_one_returns_empty_projection_witness:
  "(0::int) < 1 \<and>
   ai_implementation_costs Map.empty = Inr (py (3 * 10 ^ 12), py (6 * 10 ^ 11)) \<and>
   test_savings ''total_annual_savings'' = Some (py 1000) \<and>
   calculate_roi_analysis Map.empty test_savings 0 =
     Inr \<lparr>yearly_analysis = [], total_roi_percentage = py 0, payback_period_years = None,
          total_investment = py (3 * 10 ^ 12), total_savings = py (3 * 10 ^ 12),
          final_net_benefit = py 0\<rparr>"
proof -
  have c: "ai_implementation_costs Map.empty = Inr (py (3 * 10 ^ 12), py (6 * 10 ^ 11))"
    by (simp add: ai_implementation_costs_def)
  have s: "test_savings ''total_annual_savings'' = Some (py 1000)"
    by (simp add: test_savings_def)
  from horizon_below_one_returns_empty_projection[of 0 Map.empty test_savings] c s
  show ?thesis by (simp add: nadd_def nmul_def coerce_def)
qed

text \<open>
  C2 as stated fails: with the default costs and a horizon of \<open>-3\<close> years the projector
  raises no \<open>ConfigurationError\<close>; it returns a projection, whose total investment is
  below the upfront cost.
\<close>

theorem negative_horizon_is_accepted:
  "calculate_roi_analysis Map.empty test_savings (- 3) \<noteq> Inl ConfigurationError \<and>
   calculate_roi_analysis Map.empty test_savings (- 3) =
     Inr \<lparr>yearly_analysis = [], total_roi_percentage = py 0, payback_period_years = None,
          total_investment = py (12 * 10 ^ 11),
          total_savings = py (3 * 10 ^ 12), final_net_benefit = py 0\<rparr>"
  by (simp add: calculate_roi_analysis_def ai_implementation_costs_def ebind_def getitem_def
      test_savings_def roi_of_def truediv_def ngt_def nadd_def nmul_def coerce_def)

end
